theory Spec2Isabelle
  imports Complex_Main
begin

section \<open>Two-dimensional spectra of quantarhei (spectroscopy/twod2.py)\<close>

text \<open>
  A shallow embedding of the storage model of \<^verbatim>\<open>TwoDSpectrumBase\<close>, of its
  resolution conversions and of the line-shape synthesis of
  \<^verbatim>\<open>MockTwoDSpectrumCalculator\<close>. Python exceptions are values of the type
  \<open>error\<close>; a method that mutates the object returns the object as it is after the
  call, also when the call raises. Floating-point numbers are idealised: a numpy
  complex is a HOL \<open>complex\<close>, a float a \<open>real\<close>.
\<close>

subsection \<open>Exceptions\<close>

text \<open>
  \<open>Exception msg\<close> is \<^verbatim>\<open>raise Exception(msg)\<close> of the source, with the
  source's message; the other constructors are the exception classes that the
  interpreter or numpy raises on the source's behalf. UFuncTypeError is numpy's
  own class, a subclass of TypeError.
\<close>

datatype error =
    Exception string
  | UFuncTypeError
  | AttributeError
  | KeyError
  | TypeError
  | ValueError
  | IndexError
  | UnboundLocalError

subsection \<open>Two-dimensional numpy arrays\<close>

text \<open>
  An array has a numeric kind (its \<^verbatim>\<open>dtype\<close>: integer, float or complex; the widths
  within a kind are not distinguished), a shape and its rows. The cells are
  kept as complex numbers whatever the kind. \<open>zeros k sh\<close> is
  \<^verbatim>\<open>numpy.zeros(sh, dtype=k)\<close>.
\<close>

datatype numkind = Int_kind | Float_kind | Complex_kind

datatype ndarray = NDArray (kind: numkind) (shape: "nat \<times> nat") (cells: "complex list list")

definition cell :: "ndarray \<Rightarrow> nat \<Rightarrow> nat \<Rightarrow> complex" where
  "cell a i j = cells a ! i ! j"

definition tabulate2 :: "numkind \<Rightarrow> nat \<times> nat \<Rightarrow> (nat \<Rightarrow> nat \<Rightarrow> complex) \<Rightarrow> ndarray" where
  "tabulate2 k sh f = NDArray k sh (map (\<lambda>i. map (\<lambda>j. f i j) [0..<snd sh]) [0..<fst sh])"

definition zeros :: "numkind \<Rightarrow> nat \<times> nat \<Rightarrow> ndarray" where
  "zeros k sh = NDArray k sh (replicate (fst sh) (replicate (snd sh) 0))"

text \<open>
  The casting rule \<^verbatim>\<open>same_kind\<close> of numpy between kinds: a value can be cast to
  its own kind or to a higher one (integer, then float, then complex).
\<close>

fun rank :: "numkind \<Rightarrow> nat" where
  "rank Int_kind = 0"
| "rank Float_kind = 1"
| "rank Complex_kind = 2"

definition can_cast :: "numkind \<Rightarrow> numkind \<Rightarrow> bool" where
  "can_cast k k' \<longleftrightarrow> rank k \<le> rank k'"

definition broadcastable :: "nat \<times> nat \<Rightarrow> nat \<times> nat \<Rightarrow> bool" where
  "broadcastable sb sa \<longleftrightarrow>
     (fst sb = fst sa \<or> fst sb = 1) \<and> (snd sb = snd sa \<or> snd sb = 1)"

text \<open>
  \<open>iadd a b\<close> is the in-place \<^verbatim>\<open>a += b\<close>. The sum is computed in the higher of the
  two kinds and written back into \<open>a\<close>, which keeps its kind: numpy raises
  UFuncTypeError when the kind of \<open>b\<close> cannot be cast to the kind of \<open>a\<close>
  (a float \<open>a\<close> and a complex \<open>b\<close>), and resolves the types before it
  broadcasts. It broadcasts \<open>b\<close> to the shape of \<open>a\<close> (a dimension of \<open>b\<close>
  must equal that of \<open>a\<close> or be 1) and raises ValueError otherwise.
\<close>

definition iadd :: "ndarray \<Rightarrow> ndarray \<Rightarrow> error + ndarray" where
  "iadd a b =
     (if \<not> can_cast (kind b) (kind a) then Inl UFuncTypeError
      else if broadcastable (shape b) (shape a)
      then Inr (tabulate2 (kind a) (shape a)
                  (\<lambda>i j. cell a i j
                         + cell b (if fst (shape b) = 1 then 0 else i)
                                  (if snd (shape b) = 1 then 0 else j)))
      else Inl ValueError)"

subsection \<open>Axes and the spectrum object\<close>

text \<open>
  \<^verbatim>\<open>FrequencyAxis\<close> is defined outside this file of the repository; the code
  here reads its \<^verbatim>\<open>length\<close> and its \<^verbatim>\<open>data\<close>.
\<close>

record axis =
  axis_length :: nat
  axis_data :: "real list"

text \<open>
  The backing dictionary \<^verbatim>\<open>_d__data\<close>. At pathways resolution a pathway type maps
  to a dictionary from tags to arrays, at the lower resolutions a key maps to an
  array. Python dictionaries keep insertion order, so they are association lists.
  A tag is \<^verbatim>\<open>current_tag\<close>, which is \<^verbatim>\<open>None\<close> when the data flag was not a list.
\<close>

datatype entry = Pathways "(string option \<times> ndarray) list" | Spectrum ndarray

type_synonym storage = "(string \<times> entry) list"

text \<open>\<^verbatim>\<open>d[k] = v\<close>: replaces the value of an existing key, appends a new key.\<close>

fun dict_set :: "('k \<times> 'v) list \<Rightarrow> 'k \<Rightarrow> 'v \<Rightarrow> ('k \<times> 'v) list" where
  "dict_set [] k v = [(k, v)]"
| "dict_set ((k', v') # kvs) k v =
     (if k' = k then (k, v) # kvs else (k', v') # dict_set kvs k v)"

text \<open>
  The attributes of \<^verbatim>\<open>TwoDSpectrum\<close> set by the two \<^verbatim>\<open>__init__\<close>. The field
  \<open>d_data\<close> is the attribute \<^verbatim>\<open>_d__data\<close>: \<open>None\<close> while the object has no such
  attribute (no \<^verbatim>\<open>__init__\<close> creates it).
\<close>

record twod =
  xaxis :: "axis option"
  yaxis :: "axis option"
  reph2D :: "ndarray option"
  nonr2D :: "ndarray option"
  data :: "ndarray option"
  dtype :: "string option"
  storage_resolution :: string
  storage_initialized :: bool
  current_dtype :: "string option"
  current_tag :: "string option"
  address_length :: nat
  d_data :: "storage option"
  t2 :: real

definition TwoDSpectrum :: twod where
  "TwoDSpectrum =
     \<lparr> xaxis = None, yaxis = None, reph2D = None, nonr2D = None, data = None,
       dtype = None, storage_resolution = ''pathways'', storage_initialized = False,
       current_dtype = None, current_tag = None, address_length = 1, d_data = None,
       t2 = - 1 \<rparr>"

definition dtypes :: "string list" where
  "dtypes = [''Tot'', ''Reph'', ''Nonr'']"

definition set_axis_1 :: "twod \<Rightarrow> axis \<Rightarrow> twod" where
  "set_axis_1 s ax = s\<lparr>xaxis := Some ax\<rparr>"

definition set_axis_3 :: "twod \<Rightarrow> axis \<Rightarrow> twod" where
  "set_axis_3 s ax = s\<lparr>yaxis := Some ax\<rparr>"

definition set_data_type :: "twod \<Rightarrow> string \<Rightarrow> error option \<times> twod" where
  "set_data_type s dt =
     (if dt \<in> set dtypes then (None, s\<lparr>dtype := Some dt\<rparr>)
      else (Some (Exception ''Unknown data type for TwoDSpectrum object''), s))"

subsection \<open>add_data\<close>

text \<open>
  \<^verbatim>\<open>self.x += data\<close> on the accumulator \<open>acc\<close>, created as
  \<^verbatim>\<open>numpy.zeros(data.shape, dtype=data.dtype)\<close>, zeros of the incoming shape and
  kind, when it is \<^verbatim>\<open>None\<close>.
\<close>

definition accumulate :: "ndarray option \<Rightarrow> ndarray \<Rightarrow> error + ndarray" where
  "accumulate acc a =
     iadd (case acc of None \<Rightarrow> zeros (kind a) (shape a) | Some d \<Rightarrow> d) a"

text \<open>
  \<^verbatim>\<open>add_data(self, data, dtype)\<close>. The first test is on the argument, not on
  \<^verbatim>\<open>self.dtype\<close>: with a \<^verbatim>\<open>dtype\<close> that is not \<^verbatim>\<open>None\<close> the call raises unless
  \<^verbatim>\<open>self.dtype\<close> is already that value. With \<^verbatim>\<open>dtype=None\<close> the last branch
  concatenates a string and \<^verbatim>\<open>None\<close>, a TypeError. When the accumulator was
  \<^verbatim>\<open>None\<close> and the addition raises, the zeros stay assigned.
\<close>

definition add_data :: "twod \<Rightarrow> ndarray \<Rightarrow> string option \<Rightarrow> error option \<times> twod" where
  "add_data s a dt =
     (case dt of
        None \<Rightarrow> (Some TypeError, s)
      | Some d \<Rightarrow>
          if Some d \<noteq> dtype s
          then (Some (Exception ''Incorrect data type in TwoDSpectrum''), s)
          else if d = ''Tot''
          then (case accumulate (data s) a of
                  Inr r \<Rightarrow> (None, s\<lparr>data := Some r\<rparr>)
                | Inl e \<Rightarrow> (Some e, s\<lparr>data := Some (case data s of None \<Rightarrow> zeros (kind a) (shape a) | Some x \<Rightarrow> x)\<rparr>))
          else if d = ''Reph''
          then (case accumulate (reph2D s) a of
                  Inr r \<Rightarrow> (None, s\<lparr>reph2D := Some r\<rparr>)
                | Inl e \<Rightarrow> (Some e, s\<lparr>reph2D := Some (case reph2D s of None \<Rightarrow> zeros (kind a) (shape a) | Some x \<Rightarrow> x)\<rparr>))
          else if d = ''Nonr''
          then (case accumulate (nonr2D s) a of
                  Inr r \<Rightarrow> (None, s\<lparr>nonr2D := Some r\<rparr>)
                | Inl e \<Rightarrow> (Some e, s\<lparr>nonr2D := Some (case nonr2D s of None \<Rightarrow> zeros (kind a) (shape a) | Some x \<Rightarrow> x)\<rparr>))
          else (Some (Exception (''Unknow type of data: '' @ d)), s))"


subsection \<open>Pathway types, processes, signals and resolutions\<close>

definition ptypes :: "string list" where
  "ptypes = [''R1g'', ''R2g'', ''R3g'', ''R4g'', ''R1fs'', ''R2fs'', ''R3fs'', ''R4fs'']"

definition processes :: "(string \<times> string list) list" where
  "processes =
     [(''GSB'', [ptypes ! 0, ptypes ! 1]), (''SE'', [ptypes ! 2, ptypes ! 3]),
      (''ESA'', [ptypes ! 4, ptypes ! 5]), (''DC'', [ptypes ! 6, ptypes ! 7])]"

definition signals :: "(string \<times> string list) list" where
  "signals =
     [(''REPH'', [ptypes ! 1, ptypes ! 2, ptypes ! 4]),
      (''NONR'', [ptypes ! 0, ptypes ! 3, ptypes ! 5]),
      (''DC'', [ptypes ! 6, ptypes ! 7])]"

definition resolutions :: "string list" where
  "resolutions = [''off'', ''signals'', ''processes'', ''types'', ''pathways'']"

text \<open>\<^verbatim>\<open>list.index\<close> on a list that holds the element.\<close>

fun index_of :: "'a list \<Rightarrow> 'a \<Rightarrow> nat" where
  "index_of [] x = 0"
| "index_of (y # ys) x = (if y = x then 0 else Suc (index_of ys x))"

definition resolution2number :: "string \<Rightarrow> error + nat" where
  "resolution2number res =
     (if res \<in> set resolutions then Inr (index_of resolutions res)
      else Inl (Exception ''Unknow resolution level in TwoDSpectrum''))"

subsection \<open>Aggregation of stored data\<close>

text \<open>
  \<^verbatim>\<open>numpy.zeros((obj.xaxis.length, obj.yaxis.length), dtype=COMPLEX)\<close>: reading
  \<^verbatim>\<open>length\<close> of an axis that is still \<^verbatim>\<open>None\<close> raises AttributeError.
\<close>

definition axes_zeros :: "twod \<Rightarrow> error + ndarray" where
  "axes_zeros s =
     (case xaxis s of
        None \<Rightarrow> Inl AttributeError
      | Some x \<Rightarrow>
          (case yaxis s of
             None \<Rightarrow> Inl AttributeError
           | Some y \<Rightarrow> Inr (zeros Complex_kind (axis_length x, axis_length y))))"

text \<open>The accumulator every aggregation starts from.\<close>

definition new_accumulator :: "twod \<Rightarrow> error + ndarray" where
  "new_accumulator s =
     (if storage_initialized s then axes_zeros s else Inr (zeros Complex_kind (1, 1)))"

text \<open>\<^verbatim>\<open>for a in as: data += a\<close>.\<close>

fun sum_into :: "ndarray \<Rightarrow> ndarray list \<Rightarrow> error + ndarray" where
  "sum_into acc [] = Inr acc"
| "sum_into acc (a # as) =
     (case iadd acc a of Inl e \<Rightarrow> Inl e | Inr acc' \<Rightarrow> sum_into acc' as)"

text \<open>
  \<^verbatim>\<open>try: pways = obj._d__data[typ]\<close> with its bare \<^verbatim>\<open>except: pways = []\<close>, followed
  by the values \<^verbatim>\<open>pways[tag]\<close> that the loop over \<^verbatim>\<open>pways\<close> visits. When the entry
  is an array instead of a dictionary, the loop runs over its rows and indexing an
  array with a row raises IndexError.
\<close>

definition pathways_of :: "twod \<Rightarrow> string \<Rightarrow> error + ndarray list" where
  "pathways_of s typ =
     (case d_data s of
        None \<Rightarrow> Inr []
      | Some storage \<Rightarrow>
          (case map_of storage typ of
             None \<Rightarrow> Inr []
           | Some (Pathways pways) \<Rightarrow> Inr (map snd pways)
           | Some (Spectrum a) \<Rightarrow> if fst (shape a) = 0 then Inr [] else Inl IndexError))"

fun sum_pathways :: "twod \<Rightarrow> ndarray \<Rightarrow> string list \<Rightarrow> error + ndarray" where
  "sum_pathways s acc [] = Inr acc"
| "sum_pathways s acc (typ # typs) =
     (case pathways_of s typ of
        Inl e \<Rightarrow> Inl e
      | Inr pways \<Rightarrow>
          (case sum_into acc pways of
             Inl e \<Rightarrow> Inl e
           | Inr acc' \<Rightarrow> sum_pathways s acc' typs))"

definition pathways_to_processes :: "twod \<Rightarrow> string \<Rightarrow> error + ndarray" where
  "pathways_to_processes s process =
     (if storage_initialized s
      then (case axes_zeros s of
              Inl e \<Rightarrow> Inl e
            | Inr acc \<Rightarrow>
                (case map_of processes process of
                   None \<Rightarrow> Inl (Exception (''Unknown process: '' @ process))
                 | Some types \<Rightarrow> sum_pathways s acc types))
      else Inr (zeros Complex_kind (1, 1)))"

definition pathways_to_signals :: "twod \<Rightarrow> string \<Rightarrow> error + ndarray" where
  "pathways_to_signals s signal =
     (case new_accumulator s of
        Inl e \<Rightarrow> Inl e
      | Inr acc \<Rightarrow>
          (case map_of signals signal of
             None \<Rightarrow> Inl (Exception (''Unknown signal: '' @ signal))
           | Some types \<Rightarrow> sum_pathways s acc types))"

text \<open>\<^verbatim>\<open>for k in ks: data += f(k)\<close>.\<close>

fun add_each :: "(string \<Rightarrow> error + ndarray) \<Rightarrow> ndarray \<Rightarrow> string list \<Rightarrow> error + ndarray" where
  "add_each f acc [] = Inr acc"
| "add_each f acc (k # ks) =
     (case f k of
        Inl e \<Rightarrow> Inl e
      | Inr x \<Rightarrow>
          (case iadd acc x of
             Inl e \<Rightarrow> Inl e
           | Inr acc' \<Rightarrow> add_each f acc' ks))"

definition pathways_to_total :: "twod \<Rightarrow> error + ndarray" where
  "pathways_to_total s =
     (case new_accumulator s of
        Inl e \<Rightarrow> Inl e
      | Inr acc \<Rightarrow> add_each (pathways_to_signals s) acc (map fst signals))"

text \<open>
  \<^verbatim>\<open>try: ddata = obj._d__data[dtype]\<close>; a missing key and a missing attribute both
  give \<^verbatim>\<open>None\<close>, which the loop skips. Adding a dictionary to an array is a
  TypeError.
\<close>

definition type_data :: "twod \<Rightarrow> string \<Rightarrow> error + ndarray option" where
  "type_data s dt =
     (case d_data s of
        None \<Rightarrow> Inr None
      | Some storage \<Rightarrow>
          (case map_of storage dt of
             None \<Rightarrow> Inr None
           | Some (Spectrum a) \<Rightarrow> Inr (Some a)
           | Some (Pathways pways) \<Rightarrow> Inl TypeError))"

fun sum_types :: "twod \<Rightarrow> ndarray \<Rightarrow> string list \<Rightarrow> error + ndarray" where
  "sum_types s acc [] = Inr acc"
| "sum_types s acc (dt # dts) =
     (case type_data s dt of
        Inl e \<Rightarrow> Inl e
      | Inr None \<Rightarrow> sum_types s acc dts
      | Inr (Some ddata) \<Rightarrow>
          (case iadd acc ddata of
             Inl e \<Rightarrow> Inl e
           | Inr acc' \<Rightarrow> sum_types s acc' dts))"

text \<open>\<^verbatim>\<open>_processes[process]\<close> is not guarded here: an unknown name is a KeyError.\<close>

definition types_to_processes :: "twod \<Rightarrow> string \<Rightarrow> error + ndarray" where
  "types_to_processes s process =
     (case new_accumulator s of
        Inl e \<Rightarrow> Inl e
      | Inr acc \<Rightarrow>
          (case map_of processes process of
             None \<Rightarrow> Inl KeyError
           | Some types \<Rightarrow> sum_types s acc types))"

definition types_to_signals :: "twod \<Rightarrow> string \<Rightarrow> error + ndarray" where
  "types_to_signals s signal =
     (case new_accumulator s of
        Inl e \<Rightarrow> Inl e
      | Inr acc \<Rightarrow>
          (case map_of signals signal of
             None \<Rightarrow> Inl KeyError
           | Some types \<Rightarrow> sum_types s acc types))"

text \<open>\<^verbatim>\<open>obj._d__data[key]\<close> without any guard, as an operand of \<^verbatim>\<open>+=\<close>.\<close>

definition stored_spectrum :: "twod \<Rightarrow> string \<Rightarrow> error + ndarray" where
  "stored_spectrum s k =
     (case d_data s of
        None \<Rightarrow> Inl AttributeError
      | Some storage \<Rightarrow>
          (case map_of storage k of
             None \<Rightarrow> Inl KeyError
           | Some (Spectrum a) \<Rightarrow> Inr a
           | Some (Pathways pways) \<Rightarrow> Inl TypeError))"

definition signals_to_total :: "twod \<Rightarrow> error + ndarray" where
  "signals_to_total s =
     (if storage_initialized s
      then (case axes_zeros s of
              Inl e \<Rightarrow> Inl e
            | Inr acc \<Rightarrow> add_each (stored_spectrum s) acc (map fst signals))
      else Inr (zeros Complex_kind (1, 1)))"

definition processes_to_total :: "twod \<Rightarrow> error + ndarray" where
  "processes_to_total s =
     (if storage_initialized s
      then (case axes_zeros s of
              Inl e \<Rightarrow> Inl e
            | Inr acc \<Rightarrow> add_each (stored_spectrum s) acc (map fst processes))
      else Inr (zeros Complex_kind (1, 1)))"

text \<open>
  \<^verbatim>\<open>_types_to_total\<close> calls \<^verbatim>\<open>_types_to_processes(process)\<close> with one argument
  where the function takes two: the call raises TypeError in the first round of
  the loop over the (non-empty) \<^verbatim>\<open>_processes\<close>, before anything is added.
\<close>

definition types_to_total :: "twod \<Rightarrow> error + ndarray" where
  "types_to_total s =
     (if storage_initialized s
      then (case axes_zeros s of
              Inl e \<Rightarrow> Inl e
            | Inr acc \<Rightarrow> (case map fst processes of [] \<Rightarrow> Inr acc | process # ps \<Rightarrow> Inl TypeError))
      else Inr (zeros Complex_kind (1, 1)))"

subsection \<open>The property d__data: reading\<close>

text \<open>
  The getter \<^verbatim>\<open>prop\<close> of \<^verbatim>\<open>twodspectrum_dictionary\<close>. Its first statement is
  \<^verbatim>\<open>getattr(self, '_d__data')\<close>, an AttributeError while the attribute does not
  exist. The result is \<open>None\<close> where the Python falls off the end of the
  \<^verbatim>\<open>if\<close> chain and returns \<^verbatim>\<open>None\<close>, and otherwise the returned object: an
  array, or whatever else the dictionary holds under the key.
\<close>

text \<open>
  \<^verbatim>\<open>piece[self.current_tag]\<close> of the pathways branch. On an array, a string index
  is an IndexError.
\<close>

definition pathway_at :: "entry \<Rightarrow> string \<Rightarrow> error + entry option" where
  "pathway_at piece tag =
     (case piece of
        Pathways pways \<Rightarrow>
          (case map_of pways (Some tag) of
             None \<Rightarrow> Inl KeyError
           | Some a \<Rightarrow> Inr (Some (Spectrum a)))
      | Spectrum a \<Rightarrow> Inl IndexError)"

text \<open>
  The loop that adds up all pathways of a type: a copy of the first, which keeps
  its numeric kind, then \<^verbatim>\<open>+=\<close> for the others, which raises when one of them
  cannot be cast to that kind. Over an empty dictionary \<^verbatim>\<open>data\<close> is never bound
  and \<^verbatim>\<open>return data\<close> raises UnboundLocalError.
\<close>

definition pathways_sum :: "entry \<Rightarrow> error + entry option" where
  "pathways_sum piece =
     (case piece of
        Pathways pways \<Rightarrow>
          (case map snd pways of
             [] \<Rightarrow> Inl UnboundLocalError
           | dat # dats \<Rightarrow>
               (case sum_into dat dats of
                  Inl e \<Rightarrow> Inl e
                | Inr acc \<Rightarrow> Inr (Some (Spectrum acc))))
      | Spectrum a \<Rightarrow>
          if fst (shape a) = 0 then Inl UnboundLocalError else Inl IndexError)"

definition in_keys :: "string option \<Rightarrow> string list \<Rightarrow> bool" where
  "in_keys d ks = (case d of None \<Rightarrow> False | Some k \<Rightarrow> k \<in> set ks)"

definition as_array :: "error + ndarray \<Rightarrow> error + entry option" where
  "as_array r = (case r of Inl e \<Rightarrow> Inl e | Inr a \<Rightarrow> Inr (Some (Spectrum a)))"

definition lookup_key :: "storage \<Rightarrow> string \<Rightarrow> error + entry option" where
  "lookup_key storage k =
     (case map_of storage k of None \<Rightarrow> Inl KeyError | Some v \<Rightarrow> Inr (Some v))"

definition get_d_data :: "twod \<Rightarrow> error + entry option" where
  "get_d_data s =
     (case d_data s of
        None \<Rightarrow> Inl AttributeError
      | Some storage \<Rightarrow>
          if storage_resolution s = ''pathways'' then
            (if in_keys (current_dtype s) ptypes then
               (if storage_initialized s then
                  (case map_of storage (the (current_dtype s)) of
                     None \<Rightarrow> as_array (axes_zeros s)
                   | Some piece \<Rightarrow>
                       (case current_tag s of
                          Some tag \<Rightarrow> pathway_at piece tag
                        | None \<Rightarrow> pathways_sum piece))
                else Inr (Some (Spectrum (zeros Complex_kind (1, 1)))))
             else if in_keys (current_dtype s) (map fst processes) then
               as_array (pathways_to_processes s (the (current_dtype s)))
             else if in_keys (current_dtype s) (map fst signals) then
               as_array (pathways_to_signals s (the (current_dtype s)))
             else if current_dtype s = Some ''total'' then
               as_array (pathways_to_total s)
             else Inr None)
          else if storage_resolution s = ''types'' then
            (if in_keys (current_dtype s) ptypes then
               lookup_key storage (the (current_dtype s))
             else if in_keys (current_dtype s) (map fst processes) then
               as_array (types_to_processes s (the (current_dtype s)))
             else if in_keys (current_dtype s) (map fst signals) then
               as_array (types_to_signals s (the (current_dtype s)))
             else if current_dtype s = Some ''total'' then
               as_array (types_to_total s)
             else Inr None)
          else if storage_resolution s = ''processes'' then
            (if in_keys (current_dtype s) (map fst processes) then
               lookup_key storage (the (current_dtype s))
             else if current_dtype s = Some ''total'' then
               as_array (processes_to_total s)
             else Inr None)
          else if storage_resolution s = ''signals'' then
            (if in_keys (current_dtype s) (map fst signals) then
               lookup_key storage (the (current_dtype s))
             else if current_dtype s = Some ''total'' then
               as_array (signals_to_total s)
             else Inr None)
          else Inl (Exception ''not implemented''))"

subsection \<open>The property d__data: writing\<close>

text \<open>
  The setter, for a value that is a numpy array. The storage is created and
  \<^verbatim>\<open>storage_initialized\<close> set before anything is checked, at every resolution. At
  pathways resolution the value is stored under \<^verbatim>\<open>[current_dtype][current_tag]\<close>;
  the comparison of \<^verbatim>\<open>value.shape\<close> with the axes stands after the
  \<^verbatim>\<open>raise Exception("Tag already exists")\<close>, inside the same block, and is never
  reached. \<^verbatim>\<open>piece.keys()\<close> is an AttributeError when the entry is an array. At
  the other resolutions nothing is stored. The result is the exception, if any,
  and the object after the call.
\<close>

definition set_d_data :: "twod \<Rightarrow> ndarray \<Rightarrow> error option \<times> twod" where
  "set_d_data s0 v =
     (let s = (if \<not> storage_initialized s0
               then s0\<lparr>d_data := Some [], storage_initialized := True\<rparr> else s0)
      in case d_data s of
           None \<Rightarrow> (Some AttributeError, s)
         | Some storage \<Rightarrow>
             if storage_resolution s = ''pathways'' then
               (if \<not> in_keys (current_dtype s) ptypes
                then (Some (Exception ''Wrong pathways type''), s)
                else
                  (let dt = the (current_dtype s);
                       storage' = (case map_of storage dt of
                                     None \<Rightarrow> dict_set storage dt (Pathways [])
                                   | Some e \<Rightarrow> storage);
                       s' = s\<lparr>d_data := Some storage'\<rparr>
                   in case (case map_of storage dt of None \<Rightarrow> Pathways [] | Some e \<Rightarrow> e) of
                        Pathways piece \<Rightarrow>
                          if current_tag s \<in> set (map fst piece)
                          then (Some (Exception ''Tag already exists''), s')
                          else (None, s\<lparr>d_data := Some (dict_set storage' dt
                                  (Pathways (dict_set piece (current_tag s) v)))\<rparr>)
                      | Spectrum a \<Rightarrow> (Some AttributeError, s')))
             else (None, s))"

subsection \<open>The data flag\<close>

text \<open>
  \<^verbatim>\<open>set_data_flag(flag)\<close>: a list gives type and tag, anything else the type alone.
  \<^verbatim>\<open>flag[0]\<close> is read outside the \<^verbatim>\<open>try\<close>, so an empty list is an IndexError; a
  list of one element raises after \<^verbatim>\<open>current_dtype\<close> has been assigned.
\<close>

datatype flag = FlagList "string option list" | Flag "string option"

definition set_data_flag :: "twod \<Rightarrow> flag \<Rightarrow> error option \<times> twod" where
  "set_data_flag s f =
     (case f of
        FlagList [] \<Rightarrow> (Some IndexError, s)
      | FlagList [d] \<Rightarrow>
          (Some (Exception ''flag in form of a list must have two elements''),
           s\<lparr>current_dtype := d\<rparr>)
      | FlagList (d # t # rest) \<Rightarrow>
          (None, s\<lparr>current_dtype := d, current_tag := t, address_length := 2\<rparr>)
      | Flag d \<Rightarrow>
          (None, s\<lparr>current_dtype := d, current_tag := None, address_length := 1\<rparr>))"

subsection \<open>Changing the storage resolution\<close>

text \<open>\<^verbatim>\<open>str(n)\<close> for a resolution level, a number below 5.\<close>

definition str_level :: "nat \<Rightarrow> string" where
  "str_level n = [char_of (48 + n)]"

text \<open>
  The loop of the branch pathways to types. \<^verbatim>\<open>data_present\<close> becomes false when
  \<^verbatim>\<open>self._d__data\<close> raises AttributeError; the accumulator is allocated before
  \<^verbatim>\<open>pdict.keys()\<close> is called, which is an AttributeError on an array.
\<close>

fun convert_pathways :: "twod \<Rightarrow> storage \<Rightarrow> bool \<Rightarrow> string list \<Rightarrow> error + storage" where
  "convert_pathways s storage data_present [] = Inr storage"
| "convert_pathways s storage data_present (dt # dts) =
     (let present = (data_present \<and> d_data s \<noteq> None)
      in case (if present then axes_zeros s else Inr (zeros Complex_kind (1, 1))) of
           Inl e \<Rightarrow> Inl e
         | Inr acc \<Rightarrow>
             (case (case d_data s of
                      None \<Rightarrow> Inr []
                    | Some st \<Rightarrow>
                        (case map_of st dt of
                           None \<Rightarrow> Inr []
                         | Some (Pathways pdict) \<Rightarrow> Inr (map snd pdict)
                         | Some (Spectrum a) \<Rightarrow> Inl AttributeError)) of
                Inl e \<Rightarrow> Inl e
              | Inr arrays \<Rightarrow>
                  (case sum_into acc arrays of
                     Inl e \<Rightarrow> Inl e
                   | Inr acc' \<Rightarrow>
                       convert_pathways s (dict_set storage dt (Spectrum acc')) present dts)))"

text \<open>\<^verbatim>\<open>for k in ks: storage[k] = f(self, k)\<close>.\<close>

fun convert_each :: "(string \<Rightarrow> error + ndarray) \<Rightarrow> storage \<Rightarrow> string list \<Rightarrow> error + storage" where
  "convert_each f storage [] = Inr storage"
| "convert_each f storage (k # ks) =
     (case f k of
        Inl e \<Rightarrow> Inl e
      | Inr a \<Rightarrow> convert_each f (dict_set storage k (Spectrum a)) ks)"

text \<open>
  \<^verbatim>\<open>_convert_resolution(old, new)\<close>. The three branches that build a new
  dictionary assign it to \<^verbatim>\<open>self._d__data\<close> as their last statement. The two
  branches to level 0 compute the total into a local dictionary and assign
  nothing.
\<close>

definition convert_resolution :: "twod \<Rightarrow> nat \<Rightarrow> nat \<Rightarrow> error option \<times> twod" where
  "convert_resolution s old new =
     (if old = 4 \<and> new = 3 then
        (case convert_pathways s [] True ptypes of
           Inl e \<Rightarrow> (Some e, s)
         | Inr storage \<Rightarrow> (None, s\<lparr>d_data := Some storage\<rparr>))
      else if old = 3 \<and> new = 2 then
        (case convert_each (types_to_processes s) [] (map fst processes) of
           Inl e \<Rightarrow> (Some e, s)
         | Inr storage \<Rightarrow> (None, s\<lparr>d_data := Some storage\<rparr>))
      else if old = 3 \<and> new = 1 then
        (case convert_each (types_to_signals s) [] (map fst signals) of
           Inl e \<Rightarrow> (Some e, s)
         | Inr storage \<Rightarrow> (None, s\<lparr>d_data := Some storage\<rparr>))
      else if old = 1 \<and> new = 0 then
        (case signals_to_total s of
           Inl e \<Rightarrow> (Some e, s)
         | Inr summed \<Rightarrow> (None, s))
      else if old = 2 \<and> new = 0 then
        (case processes_to_total s of
           Inl e \<Rightarrow> (Some e, s)
         | Inr summed \<Rightarrow> (None, s))
      else (Some (Exception (''Cannot convert resolution for level '' @ str_level old
                             @ '' to level '' @ str_level new)), s))"

definition set_resolution :: "twod \<Rightarrow> string \<Rightarrow> error option \<times> twod" where
  "set_resolution s resolution =
     (if resolution \<in> set resolutions then
        (case resolution2number (storage_resolution s) of
           Inl e \<Rightarrow> (Some e, s)
         | Inr res_old \<Rightarrow>
             (case resolution2number resolution of
                Inl e \<Rightarrow> (Some e, s)
              | Inr res_new \<Rightarrow>
                  if res_old < res_new
                  then (Some (Exception ''Cannot convert from lower to higher resolution''), s)
                  else if res_old > res_new
                  then (case convert_resolution s res_old res_new of
                          (Some e, s') \<Rightarrow> (Some e, s')
                        | (None, s') \<Rightarrow> (None, s'\<lparr>storage_resolution := resolution\<rparr>))
                  else (None, s\<lparr>storage_resolution := resolution\<rparr>)))
      else (Some (Exception (''Unknown resolution: '' @ resolution)), s))"

subsection \<open>MockTwoDSpectrumCalculator.calculate_pathway\<close>

text \<open>
  The pathway descriptor (a class outside this file) and the attributes of the
  calculator that \<^verbatim>\<open>calculate_pathway\<close>, \<^verbatim>\<open>calculate\<close> and \<^verbatim>\<open>calculate_one\<close>
  read; \<open>line_shape\<close> is the attribute \<^verbatim>\<open>shape\<close> that \<^verbatim>\<open>bootstrap\<close> sets. The default widths come from
  \<^verbatim>\<open>convert(300, "1/cm", "int")\<close>, a function outside this file, and can be
  replaced by \<^verbatim>\<open>set_width\<close> and \<^verbatim>\<open>set_deph\<close>: they are fields.
\<close>

record pathway =
  pathway_type :: string
  order :: int
  relax_order :: int
  frequency :: "real list"
  pref :: complex
  widths :: "real list"
  dephs :: "real list"

record calculator =
  widthx :: real
  widthy :: real
  dephx :: real
  dephy :: real
  oa1 :: axis
  oa3 :: axis
  all_positive :: bool
  pathways :: "pathway list"
  line_shape :: string
  t2axis :: axis

text \<open>\<^verbatim>\<open>xs[i]\<close> for an integer \<open>i\<close>: a negative index counts from the end.\<close>

definition py_index :: "'a list \<Rightarrow> int \<Rightarrow> error + 'a" where
  "py_index xs i =
     (if 0 \<le> i \<and> i < int (length xs) then Inr (xs ! nat i)
      else if i < 0 \<and> - int (length xs) \<le> i then Inr (xs ! nat (int (length xs) + i))
      else Inl IndexError)"

text \<open>
  The four line parameters, as the statements before the line-shape branches
  compute them: widthx, widthy, dephx, dephy. The test that selects \<^verbatim>\<open>dephy\<close>
  reads \<^verbatim>\<open>pathway.widths[3]\<close>; \<^verbatim>\<open>pathway.dephs[3]\<close> is read in its
  \<^verbatim>\<open>else\<close> branch only.
\<close>

definition line_parameters :: "calculator \<Rightarrow> pathway \<Rightarrow> error + (real \<times> real \<times> real \<times> real)" where
  "line_parameters self p =
     (case py_index (widths p) 1 of
        Inl e \<Rightarrow> Inl e
      | Inr w1 \<Rightarrow>
     (case py_index (widths p) 3 of
        Inl e \<Rightarrow> Inl e
      | Inr w3 \<Rightarrow>
     (case py_index (dephs p) 1 of
        Inl e \<Rightarrow> Inl e
      | Inr d1 \<Rightarrow>
     (case (if w3 < 0 then Inr (dephy self) else py_index (dephs p) 3) of
        Inl e \<Rightarrow> Inl e
      | Inr dy \<Rightarrow>
          Inr (if w1 < 0 then widthx self else w1,
               if w3 < 0 then widthy self else w3,
               if d1 < 0 then dephx self else d1,
               dy)))))"

definition gaussian :: "complex \<Rightarrow> real \<Rightarrow> real \<Rightarrow> real \<Rightarrow> real \<Rightarrow> real \<Rightarrow> real \<Rightarrow> complex" where
  "gaussian prf cen1 cen3 wx wy o1 o3 =
     prf * of_real (exp (- (((o1 - cen1) / wx)\<^sup>2))) * of_real (exp (- (((o3 - cen3) / wy)\<^sup>2)))"

definition lorentzian :: "complex \<Rightarrow> real \<Rightarrow> real \<Rightarrow> real \<Rightarrow> real \<Rightarrow> real \<Rightarrow> real \<Rightarrow> complex" where
  "lorentzian prf cen1 cen3 dx dy o1 o3 =
     prf * of_real (dx / ((o1 - cen1)\<^sup>2 + dx\<^sup>2)) * of_real (dy / ((o3 - cen3)\<^sup>2 + dy\<^sup>2))"

text \<open>
  \<^verbatim>\<open>a[:, i1] = vec\<close>: the column index must exist (IndexError), and \<open>vec\<close> must
  have the length of a column or length 1 (ValueError).
\<close>

definition set_column :: "ndarray \<Rightarrow> nat \<Rightarrow> complex list \<Rightarrow> error + ndarray" where
  "set_column a i1 vec =
     (if snd (shape a) \<le> i1 then Inl IndexError
      else if length vec = fst (shape a)
      then Inr (tabulate2 (kind a) (shape a) (\<lambda>i j. if j = i1 then vec ! i else cell a i j))
      else if length vec = 1
      then Inr (tabulate2 (kind a) (shape a) (\<lambda>i j. if j = i1 then vec ! 0 else cell a i j))
      else Inl ValueError)"

text \<open>
  \<^verbatim>\<open>for i1 in range(N1)\<close>: \<open>o1\<close> is \<open>sign * oa1.data[i1]\<close> and column \<open>i1\<close>
  becomes the peak function of \<open>o1\<close> over the whole of \<^verbatim>\<open>oa3.data\<close>.
\<close>

fun fill_columns ::
  "(real \<Rightarrow> real \<Rightarrow> complex) \<Rightarrow> real \<Rightarrow> real list \<Rightarrow> real list \<Rightarrow> ndarray \<Rightarrow> nat list
     \<Rightarrow> error + ndarray" where
  "fill_columns peak sign data1 oo3 a [] = Inr a"
| "fill_columns peak sign data1 oo3 a (i1 # rest) =
     (if length data1 \<le> i1 then Inl IndexError
      else (case set_column a i1 (map (peak (sign * (data1 ! i1))) oo3) of
              Inl e \<Rightarrow> Inl e
            | Inr a' \<Rightarrow> fill_columns peak sign data1 oo3 a' rest))"

text \<open>
  \<^verbatim>\<open>calculate_pathway(pathway, shape)\<close>. The result is \<open>None\<close> for a pathway type
  other than R and NR, where the method returns nothing.
\<close>

definition calculate_pathway :: "calculator \<Rightarrow> pathway \<Rightarrow> string \<Rightarrow> error + ndarray option" where
  "calculate_pathway self p shp =
     (let noe = 1 + order p + relax_order p
      in case py_index (frequency p) 0 of
           Inl e \<Rightarrow> Inl e
         | Inr cen1 \<Rightarrow>
        (case py_index (frequency p) (noe - 2) of
           Inl e \<Rightarrow> Inl e
         | Inr cen3 \<Rightarrow>
        (let prf = (if all_positive self then of_real (cmod (pref p)) else pref p);
             N1 = axis_length (oa1 self);
             N3 = axis_length (oa3 self)
         in case line_parameters self p of
              Inl e \<Rightarrow> Inl e
            | Inr (wx, wy, dx, dy) \<Rightarrow>
                if pathway_type p = ''R'' then
                  (if shp = ''Gaussian'' then
                     map_sum id Some
                       (fill_columns (gaussian prf cen1 cen3 wx wy) (- 1)
                          (axis_data (oa1 self)) (axis_data (oa3 self)) (zeros Complex_kind (N1, N3)) [0..<N1])
                   else if shp = ''Lorentzian'' then
                     map_sum id Some
                       (fill_columns (lorentzian prf cen1 cen3 dx dy) (- 1)
                          (axis_data (oa1 self)) (axis_data (oa3 self)) (zeros Complex_kind (N1, N3)) [0..<N1])
                   else Inl (Exception (''Unknown line shape: '' @ shp)))
                else if pathway_type p = ''NR'' then
                  (if shp = ''Gaussian'' then
                     map_sum id Some
                       (fill_columns (gaussian prf cen1 cen3 wx wy) 1
                          (axis_data (oa1 self)) (axis_data (oa3 self)) (zeros Complex_kind (N1, N3)) [0..<N1])
                   else if shp = ''Lorentzian'' then
                     map_sum id Some
                       (fill_columns (lorentzian prf cen1 cen3 dx dy) 1
                          (axis_data (oa1 self)) (axis_data (oa3 self)) (zeros Complex_kind (N1, N3)) [0..<N1])
                   else Inl (Exception (''Unknown line shape: '' @ shp)))
                else Inr None)))"

subsection \<open>MockTwoDSpectrumCalculator.calculate and calculate_one\<close>

definition set_t2 :: "twod \<Rightarrow> real \<Rightarrow> twod" where
  "set_t2 s v = s\<lparr>t2 := v\<rparr>"

text \<open>
  The loop \<^verbatim>\<open>for pwy in self.pathways\<close> of both methods, on the new spectrum
  \<open>onetwod\<close>: the array of the pathway is computed first, then added as
  \<^verbatim>\<open>Reph\<close> or \<^verbatim>\<open>Nonr\<close> data. \<^verbatim>\<open>calculate_pathway\<close> returns \<^verbatim>\<open>None\<close> for no
  type but those that reach \<^verbatim>\<open>raise Exception("Unknown pathway type")\<close>. An
  exception of \<^verbatim>\<open>add_data\<close> leaves the method, and the local spectrum is lost.
\<close>

fun add_pathways :: "calculator \<Rightarrow> twod \<Rightarrow> pathway list \<Rightarrow> error + twod" where
  "add_pathways self onetwod [] = Inr onetwod"
| "add_pathways self onetwod (pwy # rest) =
     (case calculate_pathway self pwy (line_shape self) of
        Inl e \<Rightarrow> Inl e
      | Inr None \<Rightarrow> Inl (Exception ''Unknown pathway type'')
      | Inr (Some dat) \<Rightarrow>
          if pathway_type pwy = ''R'' then
            (case add_data onetwod dat (Some ''Reph'') of
               (Some e, s) \<Rightarrow> Inl e
             | (None, s) \<Rightarrow> add_pathways self s rest)
          else if pathway_type pwy = ''NR'' then
            (case add_data onetwod dat (Some ''Nonr'') of
               (Some e, s) \<Rightarrow> Inl e
             | (None, s) \<Rightarrow> add_pathways self s rest)
          else Inl (Exception ''Unknown pathway type''))"

text \<open>\<^verbatim>\<open>calculate(self)\<close>: a new spectrum with the two axes, the loop, then \<^verbatim>\<open>set_t2(0.0)\<close>.\<close>

definition calculate :: "calculator \<Rightarrow> error + twod" where
  "calculate self =
     (case add_pathways self (set_axis_3 (set_axis_1 TwoDSpectrum (oa1 self)) (oa3 self))
             (pathways self) of
        Inl e \<Rightarrow> Inl e
      | Inr onetwod \<Rightarrow> Inr (set_t2 onetwod 0))"

text \<open>\<^verbatim>\<open>calculate_one(self, tc)\<close>: the same, with \<^verbatim>\<open>self.t2axis.data[tc]\<close> as waiting time.\<close>

definition calculate_one :: "calculator \<Rightarrow> int \<Rightarrow> error + twod" where
  "calculate_one self tc =
     (case add_pathways self (set_axis_3 (set_axis_1 TwoDSpectrum (oa1 self)) (oa3 self))
             (pathways self) of
        Inl e \<Rightarrow> Inl e
      | Inr onetwod \<Rightarrow>
          (case py_index (axis_data (t2axis self)) tc of
             Inl e \<Rightarrow> Inl e
           | Inr v \<Rightarrow> Inr (set_t2 onetwod v)))"

section \<open>Notions used in the statements\<close>

subsection \<open>Addresses of the pathway storage\<close>

text \<open>
  The pair (type, tag) is populated when the initialised storage holds, under the
  type, a dictionary with the tag among its keys. It is vacant when the storage is
  not initialised yet, or holds nothing under the type, or a dictionary without
  the tag.
\<close>

definition populated :: "twod \<Rightarrow> string \<Rightarrow> string \<Rightarrow> bool" where
  "populated s d t \<longleftrightarrow>
     storage_initialized s \<and>
     (case d_data s of
        None \<Rightarrow> False
      | Some storage \<Rightarrow>
          (case map_of storage d of
             Some (Pathways piece) \<Rightarrow> Some t \<in> set (map fst piece)
           | Some (Spectrum a) \<Rightarrow> False
           | None \<Rightarrow> False))"

definition vacant :: "twod \<Rightarrow> string \<Rightarrow> string \<Rightarrow> bool" where
  "vacant s d t \<longleftrightarrow>
     \<not> storage_initialized s \<or>
     (case d_data s of
        None \<Rightarrow> False
      | Some storage \<Rightarrow>
          (case map_of storage d of
             Some (Pathways piece) \<Rightarrow> Some t \<notin> set (map fst piece)
           | Some (Spectrum a) \<Rightarrow> False
           | None \<Rightarrow> True))"

subsection \<open>The legal transitions\<close>

text \<open>
  The transitions that the specification lists, by the names of the resolutions:
  the five conversions, and staying at the current level.
\<close>

definition conversions :: "(string \<times> string) list" where
  "conversions =
     [(''pathways'', ''types''), (''types'', ''processes''), (''types'', ''signals''),
      (''signals'', ''off''), (''processes'', ''off'')]"

definition allowed :: "string \<Rightarrow> string \<Rightarrow> bool" where
  "allowed old new \<longleftrightarrow>
     (old, new) \<in> set conversions \<or> (old = new \<and> old \<in> set resolutions)"

definition level :: "string \<Rightarrow> nat" where
  "level res = index_of resolutions res"

subsection \<open>Storage that fits its resolution\<close>

text \<open>
  The shape of the accumulators of an object: the lengths of the axes once the
  storage is initialised, \<open>(1, 1)\<close> before.
\<close>

definition store_shape :: "twod \<Rightarrow> nat \<times> nat" where
  "store_shape s =
     (if storage_initialized s
      then (case xaxis s of
              None \<Rightarrow> (1, 1)
            | Some x \<Rightarrow> (case yaxis s of None \<Rightarrow> (1, 1) | Some y \<Rightarrow> (axis_length x, axis_length y)))
      else (1, 1))"

text \<open>
  An object is consistent when its resolution is one of the five names, its axes
  are set once the storage is initialised, and the storage fits the resolution:
  \<^item> at pathways resolution it does not exist yet (and is not initialised), or it is
    initialised and holds under each pathway type, if anything, a dictionary of
    arrays of the accumulator shape;
  \<^item> at types resolution it holds under each pathway type, if anything, an array of
    the accumulator shape;
  \<^item> at processes (signals) resolution it holds under every process (signal) an
    array of the accumulator shape.
\<close>

definition fits :: "twod \<Rightarrow> ndarray \<Rightarrow> bool" where
  "fits s a \<longleftrightarrow> shape a = store_shape s"

definition consistent :: "twod \<Rightarrow> bool" where
  "consistent s \<longleftrightarrow>
     storage_resolution s \<in> set resolutions \<and>
     (storage_initialized s \<longrightarrow> xaxis s \<noteq> None \<and> yaxis s \<noteq> None) \<and>
     (case d_data s of
        None \<Rightarrow> \<not> storage_initialized s \<and> storage_resolution s = ''pathways''
      | Some storage \<Rightarrow>
          if storage_resolution s = ''pathways'' then
            storage_initialized s \<and>
            list_all (\<lambda>dt. case map_of storage dt of
                             None \<Rightarrow> True
                           | Some (Pathways piece) \<Rightarrow> list_all (fits s) (map snd piece)
                           | Some (Spectrum a) \<Rightarrow> False) ptypes
          else if storage_resolution s = ''types'' then
            list_all (\<lambda>dt. case map_of storage dt of
                             None \<Rightarrow> True
                           | Some (Spectrum a) \<Rightarrow> fits s a
                           | Some (Pathways piece) \<Rightarrow> False) ptypes
          else if storage_resolution s = ''processes'' then
            list_all (\<lambda>k. case map_of storage k of
                            Some (Spectrum a) \<Rightarrow> fits s a
                          | Some (Pathways piece) \<Rightarrow> False
                          | None \<Rightarrow> False) (map fst processes)
          else if storage_resolution s = ''signals'' then
            list_all (\<lambda>k. case map_of storage k of
                            Some (Spectrum a) \<Rightarrow> fits s a
                          | Some (Pathways piece) \<Rightarrow> False
                          | None \<Rightarrow> False) (map fst signals)
          else True)"

text \<open>A dictionary that holds nothing but arrays of one shape.\<close>

definition spectra_of_shape :: "nat \<times> nat \<Rightarrow> storage \<Rightarrow> bool" where
  "spectra_of_shape sh storage \<longleftrightarrow>
     (\<forall>k e. map_of storage k = Some e \<longrightarrow> (\<exists>a. e = Spectrum a \<and> shape a = sh))"

subsection \<open>Storage lowered before any write\<close>

text \<open>
  The keys of a resolution level, and the names that the getter answers at that
  level. A zero store is what lowering the resolution of an object that was never
  written to leaves: not initialised, with the array \<open>zeros Complex_kind (1, 1)\<close> under every
  key of its level.
\<close>

definition level_keys :: "string \<Rightarrow> string list" where
  "level_keys res =
     (if res = ''types'' then ptypes
      else if res = ''processes'' then map fst processes
      else if res = ''signals'' then map fst signals
      else [])"

definition answered :: "string \<Rightarrow> string list" where
  "answered res =
     (if res = ''types'' then ptypes @ map fst processes @ map fst signals @ [''total'']
      else if res = ''processes'' then map fst processes @ [''total'']
      else if res = ''signals'' then map fst signals @ [''total'']
      else [])"

definition zero_store :: "twod \<Rightarrow> bool" where
  "zero_store s \<longleftrightarrow>
     \<not> storage_initialized s \<and>
     (case d_data s of
        None \<Rightarrow> False
      | Some storage \<Rightarrow>
          list_all (\<lambda>k. map_of storage k = Some (Spectrum (zeros Complex_kind (1, 1))))
            (level_keys (storage_resolution s)))"

subsection \<open>Example objects\<close>

text \<open>
  A spectrum with axes of one sample, the array \<open>[[1]]\<close> written under the
  pathway \<open>[R1g, a]\<close>, and what the conversions make of it.
\<close>

definition unit_axis :: axis where
  "unit_axis = \<lparr>axis_length = 1, axis_data = [0]\<rparr>"

definition one_pathway :: twod where
  "one_pathway =
     snd (set_d_data
            (snd (set_data_flag (set_axis_3 (set_axis_1 TwoDSpectrum unit_axis) unit_axis)
                    (FlagList [Some ''R1g'', Some ''a''])))
            (NDArray Complex_kind (1, 1) [[1]]))"

definition one_pathway_types :: twod where
  "one_pathway_types = snd (set_resolution one_pathway ''types'')"

definition one_pathway_processes :: twod where
  "one_pathway_processes = snd (set_resolution one_pathway_types ''processes'')"

definition one_pathway_signals :: twod where
  "one_pathway_signals = snd (set_resolution one_pathway_types ''signals'')"

text \<open>
  A spectrum with the same axes that is lowered, step by step, before anything is
  written to it.
\<close>

definition unwritten :: twod where
  "unwritten = set_axis_3 (set_axis_1 TwoDSpectrum unit_axis) unit_axis"

definition unwritten_types :: twod where
  "unwritten_types = snd (set_resolution unwritten ''types'')"

definition unwritten_processes :: twod where
  "unwritten_processes = snd (set_resolution unwritten_types ''processes'')"

definition unwritten_signals :: twod where
  "unwritten_signals = snd (set_resolution unwritten_types ''signals'')"

definition unwritten_off :: twod where
  "unwritten_off = snd (set_resolution unwritten_signals ''off'')"

text \<open>
  The object \<open>unwritten_signals\<close> after the flag REPH has been set and an array
  assigned to \<^verbatim>\<open>d__data\<close>.
\<close>

definition written_signals :: twod where
  "written_signals =
     snd (set_d_data (snd (set_data_flag unwritten_signals (Flag (Some ''REPH''))))
            (NDArray Complex_kind (1, 1) [[1]]))"

text \<open>
  Two pathways with centre frequencies 100 and 100, prefactor 1 and default
  widths, one rephasing and one non-rephasing, and a calculator of Gaussian
  lines for them over the symmetric grid -100, 0, 100 on both axes, with the
  default widths 300. In \<open>uneven_calculator\<close> the second axis has five samples.
\<close>

definition rephasing_pathway :: pathway where
  "rephasing_pathway =
     \<lparr>pathway_type = ''R'', order = 3, relax_order = 0, frequency = [100, 0, 100], pref = 1,
      widths = [- 1, - 1, - 1, - 1], dephs = [- 1, - 1, - 1, - 1]\<rparr>"

definition nonrephasing_pathway :: pathway where
  "nonrephasing_pathway = rephasing_pathway\<lparr>pathway_type := ''NR''\<rparr>"

definition grid_axis :: axis where
  "grid_axis = \<lparr>axis_length = 3, axis_data = [- 100, 0, 100]\<rparr>"

definition long_axis :: axis where
  "long_axis = \<lparr>axis_length = 5, axis_data = [- 200, - 100, 0, 100, 200]\<rparr>"

definition mock_calculator :: calculator where
  "mock_calculator =
     \<lparr>widthx = 300, widthy = 300, dephx = 300, dephy = 300, oa1 = grid_axis, oa3 = grid_axis,
      all_positive = False, pathways = [rephasing_pathway, nonrephasing_pathway],
      line_shape = ''Gaussian'', t2axis = \<lparr>axis_length = 1, axis_data = [0]\<rparr>\<rparr>"

definition uneven_calculator :: calculator where
  "uneven_calculator = mock_calculator\<lparr>oa3 := long_axis\<rparr>"

section \<open>Properties\<close>

subsection \<open>Arrays\<close>

lemma shape_tabulate2 [simp]: "shape (tabulate2 k sh f) = sh"
  by (simp add: tabulate2_def)

lemma cell_tabulate2 [simp]:
  "i < fst sh \<Longrightarrow> j < snd sh \<Longrightarrow> cell (tabulate2 k sh f) i j = f i j"
  by (simp add: tabulate2_def cell_def)

lemma kind_tabulate2 [simp]: "kind (tabulate2 k sh f) = k"
  by (simp add: tabulate2_def)

lemma kind_zeros [simp]: "kind (zeros k sh) = k"
  by (simp add: zeros_def)

lemma can_cast_refl [simp]: "can_cast k k"
  by (simp add: can_cast_def)

lemma can_cast_complex [simp]: "can_cast k Complex_kind"
  by (cases k) (simp_all add: can_cast_def)

lemma shape_zeros [simp]: "shape (zeros k sh) = sh"
  by (simp add: zeros_def)

lemma cell_zeros [simp]: "i < fst sh \<Longrightarrow> j < snd sh \<Longrightarrow> cell (zeros k sh) i j = 0"
  by (simp add: zeros_def cell_def)

lemma broadcastable_refl [simp]: "broadcastable sh sh"
  by (simp add: broadcastable_def)

lemmas array_defs = zeros_def iadd_def can_cast_def broadcastable_def tabulate2_def cell_def

subsection \<open>add_data\<close>



lemma accumulate_uncastable:
  "\<not> can_cast (kind b) (kind r) \<Longrightarrow> accumulate (Some r) b = Inl UFuncTypeError"
  by (simp add: accumulate_def iadd_def)







subsection \<open>Tables and example objects, evaluated\<close>

lemma processes_eq:
  "processes = [(''GSB'', [''R1g'', ''R2g'']), (''SE'', [''R3g'', ''R4g'']),
                (''ESA'', [''R1fs'', ''R2fs'']), (''DC'', [''R3fs'', ''R4fs''])]"
  by (simp add: processes_def ptypes_def)

lemma signals_eq:
  "signals = [(''REPH'', [''R2g'', ''R3g'', ''R1fs'']), (''NONR'', [''R1g'', ''R4g'', ''R2fs'']),
              (''DC'', [''R3fs'', ''R4fs''])]"
  by (simp add: signals_def ptypes_def)

lemma resolution2number_eqs:
  "resolution2number ''off'' = Inr 0" "resolution2number ''signals'' = Inr 1"
  "resolution2number ''processes'' = Inr 2" "resolution2number ''types'' = Inr 3"
  "resolution2number ''pathways'' = Inr 4"
  by (simp_all add: resolution2number_def resolutions_def)

lemmas read_defs = get_d_data_def in_keys_def as_array_def lookup_key_def pathway_at_def
  pathways_sum_def ptypes_def processes_eq signals_eq set_data_flag_def

lemmas sum_defs = axes_zeros_def new_accumulator_def pathways_of_def pathways_to_processes_def
  pathways_to_signals_def pathways_to_total_def type_data_def types_to_processes_def
  types_to_signals_def stored_spectrum_def signals_to_total_def processes_to_total_def
  types_to_total_def processes_eq signals_eq array_defs

lemmas step_defs = set_resolution_def convert_resolution_def resolution2number_eqs resolutions_def

lemma one_pathway_eq:
  "one_pathway =
     \<lparr>xaxis = Some unit_axis, yaxis = Some unit_axis, reph2D = None, nonr2D = None, data = None,
      dtype = None, storage_resolution = ''pathways'', storage_initialized = True,
      current_dtype = Some ''R1g'', current_tag = Some ''a'', address_length = 2,
      d_data = Some [(''R1g'', Pathways [(Some ''a'', NDArray Complex_kind (1, 1) [[1]])])],
      t2 = - 1\<rparr>"
  by (simp add: one_pathway_def set_axis_1_def set_axis_3_def TwoDSpectrum_def
      set_data_flag_def set_d_data_def in_keys_def ptypes_def)

lemma one_pathway_convert:
  "convert_pathways one_pathway [] True ptypes =
     Inr [(''R1g'', Spectrum (NDArray Complex_kind (1, 1) [[1]])), (''R2g'', Spectrum (NDArray Complex_kind (1, 1) [[0]])),
          (''R3g'', Spectrum (NDArray Complex_kind (1, 1) [[0]])), (''R4g'', Spectrum (NDArray Complex_kind (1, 1) [[0]])),
          (''R1fs'', Spectrum (NDArray Complex_kind (1, 1) [[0]])), (''R2fs'', Spectrum (NDArray Complex_kind (1, 1) [[0]])),
          (''R3fs'', Spectrum (NDArray Complex_kind (1, 1) [[0]])), (''R4fs'', Spectrum (NDArray Complex_kind (1, 1) [[0]]))]"
  by (simp add: one_pathway_eq ptypes_def axes_zeros_def unit_axis_def array_defs)

lemma one_pathway_to_types:
  "set_resolution one_pathway ''types'' =
     (None, one_pathway\<lparr>storage_resolution := ''types'',
       d_data := Some
         [(''R1g'', Spectrum (NDArray Complex_kind (1, 1) [[1]])), (''R2g'', Spectrum (NDArray Complex_kind (1, 1) [[0]])),
          (''R3g'', Spectrum (NDArray Complex_kind (1, 1) [[0]])), (''R4g'', Spectrum (NDArray Complex_kind (1, 1) [[0]])),
          (''R1fs'', Spectrum (NDArray Complex_kind (1, 1) [[0]])), (''R2fs'', Spectrum (NDArray Complex_kind (1, 1) [[0]])),
          (''R3fs'', Spectrum (NDArray Complex_kind (1, 1) [[0]])), (''R4fs'', Spectrum (NDArray Complex_kind (1, 1) [[0]]))]\<rparr>)"
proof -
  have "storage_resolution one_pathway = ''pathways''" by (simp add: one_pathway_eq)
  then show ?thesis by (simp add: step_defs one_pathway_convert)
qed

lemma one_pathway_types_eq:
  "one_pathway_types =
     one_pathway\<lparr>storage_resolution := ''types'',
       d_data := Some
         [(''R1g'', Spectrum (NDArray Complex_kind (1, 1) [[1]])), (''R2g'', Spectrum (NDArray Complex_kind (1, 1) [[0]])),
          (''R3g'', Spectrum (NDArray Complex_kind (1, 1) [[0]])), (''R4g'', Spectrum (NDArray Complex_kind (1, 1) [[0]])),
          (''R1fs'', Spectrum (NDArray Complex_kind (1, 1) [[0]])), (''R2fs'', Spectrum (NDArray Complex_kind (1, 1) [[0]])),
          (''R3fs'', Spectrum (NDArray Complex_kind (1, 1) [[0]])), (''R4fs'', Spectrum (NDArray Complex_kind (1, 1) [[0]]))]\<rparr>"
  by (simp add: one_pathway_types_def one_pathway_to_types)

lemma one_pathway_to_processes:
  "set_resolution one_pathway_types ''processes'' =
     (None, one_pathway\<lparr>storage_resolution := ''processes'',
       d_data := Some
         [(''GSB'', Spectrum (NDArray Complex_kind (1, 1) [[1]])), (''SE'', Spectrum (NDArray Complex_kind (1, 1) [[0]])),
          (''ESA'', Spectrum (NDArray Complex_kind (1, 1) [[0]])), (''DC'', Spectrum (NDArray Complex_kind (1, 1) [[0]]))]\<rparr>)"
  by (simp add: one_pathway_types_eq one_pathway_eq step_defs sum_defs unit_axis_def)

lemma one_pathway_processes_eq:
  "one_pathway_processes =
     one_pathway\<lparr>storage_resolution := ''processes'',
       d_data := Some
         [(''GSB'', Spectrum (NDArray Complex_kind (1, 1) [[1]])), (''SE'', Spectrum (NDArray Complex_kind (1, 1) [[0]])),
          (''ESA'', Spectrum (NDArray Complex_kind (1, 1) [[0]])), (''DC'', Spectrum (NDArray Complex_kind (1, 1) [[0]]))]\<rparr>"
  by (simp add: one_pathway_processes_def one_pathway_to_processes)

lemma one_pathway_to_signals:
  "set_resolution one_pathway_types ''signals'' =
     (None, one_pathway\<lparr>storage_resolution := ''signals'',
       d_data := Some
         [(''REPH'', Spectrum (NDArray Complex_kind (1, 1) [[0]])), (''NONR'', Spectrum (NDArray Complex_kind (1, 1) [[1]])),
          (''DC'', Spectrum (NDArray Complex_kind (1, 1) [[0]]))]\<rparr>)"
  by (simp add: one_pathway_types_eq one_pathway_eq step_defs sum_defs unit_axis_def)

lemma one_pathway_signals_eq:
  "one_pathway_signals =
     one_pathway\<lparr>storage_resolution := ''signals'',
       d_data := Some
         [(''REPH'', Spectrum (NDArray Complex_kind (1, 1) [[0]])), (''NONR'', Spectrum (NDArray Complex_kind (1, 1) [[1]])),
          (''DC'', Spectrum (NDArray Complex_kind (1, 1) [[0]]))]\<rparr>"
  by (simp add: one_pathway_signals_def one_pathway_to_signals)

lemma one_pathway_signals_to_off:
  "set_resolution one_pathway_signals ''off''
     = (None, one_pathway_signals\<lparr>storage_resolution := ''off''\<rparr>)"
  by (simp add: one_pathway_signals_eq one_pathway_eq step_defs sum_defs unit_axis_def)

subsection \<open>Reading the total at types resolution\<close>

text \<open>
  C1 fails on the code. The object \<open>one_pathway\<close> holds the array \<open>[[1]]\<close> under
  the pathway \<open>[R1g, a]\<close>; at pathways resolution its total reads as \<open>[[1]]\<close>.
  The conversion to types resolution succeeds, and reading the total there raises
  TypeError, because \<^verbatim>\<open>_types_to_total\<close> calls \<^verbatim>\<open>_types_to_processes\<close> without
  the object. After the further conversion to processes or to signals the total
  reads as \<open>[[1]]\<close> again.
\<close>

theorem types_total_raises:
  "get_d_data (snd (set_data_flag one_pathway (Flag (Some ''total''))))
     = Inr (Some (Spectrum (NDArray Complex_kind (1, 1) [[1]])))
   \<and> set_resolution one_pathway ''types'' = (None, one_pathway_types)
   \<and> storage_initialized one_pathway_types
   \<and> get_d_data (snd (set_data_flag one_pathway_types (Flag (Some ''total'')))) = Inl TypeError
   \<and> set_resolution one_pathway_types ''processes'' = (None, one_pathway_processes)
   \<and> get_d_data (snd (set_data_flag one_pathway_processes (Flag (Some ''total''))))
     = Inr (Some (Spectrum (NDArray Complex_kind (1, 1) [[1]])))
   \<and> set_resolution one_pathway_types ''signals'' = (None, one_pathway_signals)
   \<and> get_d_data (snd (set_data_flag one_pathway_signals (Flag (Some ''total''))))
     = Inr (Some (Spectrum (NDArray Complex_kind (1, 1) [[1]])))"
proof -
  have 1: "get_d_data (snd (set_data_flag one_pathway (Flag (Some ''total''))))
     = Inr (Some (Spectrum (NDArray Complex_kind (1, 1) [[1]])))"
    by (simp add: one_pathway_eq read_defs sum_defs unit_axis_def)
  have 2: "set_resolution one_pathway ''types'' = (None, one_pathway_types)"
    by (simp add: one_pathway_types_def one_pathway_to_types)
  have 3: "storage_initialized one_pathway_types"
    by (simp add: one_pathway_types_eq one_pathway_eq)
  have 4: "get_d_data (snd (set_data_flag one_pathway_types (Flag (Some ''total'')))) = Inl TypeError"
    by (simp add: one_pathway_types_eq one_pathway_eq read_defs types_to_total_def
        axes_zeros_def)
  have 5: "set_resolution one_pathway_types ''processes'' = (None, one_pathway_processes)"
    by (simp add: one_pathway_processes_def one_pathway_to_processes)
  have 6: "get_d_data (snd (set_data_flag one_pathway_processes (Flag (Some ''total''))))
     = Inr (Some (Spectrum (NDArray Complex_kind (1, 1) [[1]])))"
    by (simp add: one_pathway_processes_eq one_pathway_eq read_defs sum_defs unit_axis_def)
  have 7: "set_resolution one_pathway_types ''signals'' = (None, one_pathway_signals)"
    by (simp add: one_pathway_signals_def one_pathway_to_signals)
  have 8: "get_d_data (snd (set_data_flag one_pathway_signals (Flag (Some ''total''))))
     = Inr (Some (Spectrum (NDArray Complex_kind (1, 1) [[1]])))"
    by (simp add: one_pathway_signals_eq one_pathway_eq read_defs sum_defs unit_axis_def)
  from 1 2 3 4 5 6 7 8 show ?thesis by blast
qed

subsection \<open>The shape of written data\<close>

text \<open>
  C4 fails on the code. The axes have length 2, the array written under the fresh
  address \<open>[R1g, a]\<close> at pathways resolution has shape \<open>(1, 3)\<close>: the write
  returns normally and the array is in the storage.
\<close>

theorem write_wrong_shape_stored:
  "(let ax = \<lparr>axis_length = 2, axis_data = [0, 1]\<rparr>;
        s0 = set_axis_3 (set_axis_1 TwoDSpectrum ax) ax;
        s1 = snd (set_data_flag s0 (FlagList [Some ''R1g'', Some ''a'']));
        v = NDArray Complex_kind (1, 3) [[1, 2, 3]];
        w = set_d_data s1 v
    in storage_resolution s1 = ''pathways''
     \<and> shape v \<noteq> (axis_length ax, axis_length ax)
     \<and> fst w = None
     \<and> d_data (snd w) = Some [(''R1g'', Pathways [(Some ''a'', v)])]
     \<and> get_d_data (snd w) = Inr (Some (Spectrum v)))"
  by (simp add: set_axis_1_def set_axis_3_def TwoDSpectrum_def set_data_flag_def
      set_d_data_def get_d_data_def in_keys_def pathway_at_def ptypes_def)

subsection \<open>The line parameters of a pathway\<close>

text \<open>
  C3 fails on the code. The pathway has \<open>dephs[3] = 1\<close>, which is not negative,
  and \<open>widths[3] = -1\<close>; the default \<open>dephy\<close> of the calculator is 2. The
  y-axis dephasing that \<^verbatim>\<open>calculate_pathway\<close> uses is the default 2, not
  \<open>dephs[3]\<close>: the one cell of the Lorentzian array is the peak function with
  \<open>dephy = 2\<close>, which is 1/2, where \<open>dephy = 1\<close> gives 1. With \<open>widths[3] = 5\<close>
  and \<open>dephs[3] = -1\<close> the negative \<open>dephs[3]\<close> is used instead of the default.
\<close>

theorem dephy_follows_widths:
  "(let ax = \<lparr>axis_length = 1, axis_data = [0]\<rparr>;
        calc = \<lparr>widthx = 3, widthy = 3, dephx = 2, dephy = 2, oa1 = ax, oa3 = ax,
                all_positive = False, pathways = [], line_shape = ''Lorentzian'',
                t2axis = ax\<rparr>;
        p = \<lparr>pathway_type = ''NR'', order = 3, relax_order = 0, frequency = [0, 0, 0],
             pref = 1, widths = [- 1, - 1, - 1, - 1], dephs = [- 1, 1, - 1, 1]\<rparr>;
        q = p\<lparr>widths := [- 1, - 1, - 1, 5], dephs := [- 1, 1, - 1, - 1]\<rparr>
    in line_parameters calc p = Inr (3, 3, 1, 2)
     \<and> calculate_pathway calc p ''Lorentzian''
         = Inr (Some (NDArray Complex_kind (1, 1) [[lorentzian 1 0 0 1 2 0 0]]))
     \<and> lorentzian 1 0 0 1 2 0 0 = 1 / 2
     \<and> lorentzian 1 0 0 1 1 0 0 = 1
     \<and> line_parameters calc q = Inr (3, 5, 1, - 1))"
  by (simp add: line_parameters_def py_index_def calculate_pathway_def set_column_def
      lorentzian_def array_defs)

subsection \<open>A call of set_resolution that raises\<close>

lemma convert_resolution_raises:
  "convert_resolution s old new = (Some e, s') \<Longrightarrow> s' = s"
  by (auto simp: convert_resolution_def split: if_splits sum.splits)

text \<open>
  C9. When \<^verbatim>\<open>set_resolution\<close> raises, whatever the exception, the object after the
  call is the object before the call: \<^verbatim>\<open>storage_resolution\<close>, the storage and
  every other attribute are as they were.
\<close>

theorem set_resolution_raises_unchanged:
  "set_resolution s resolution = (Some e, s') \<Longrightarrow> s' = s"
  by (auto simp: set_resolution_def split: if_splits sum.splits prod.splits option.splits
      dest: convert_resolution_raises)

theorem set_resolution_raises_unchanged_witness:
  "fst (set_resolution one_pathway_processes ''signals'') \<noteq> None
   \<and> snd (set_resolution one_pathway_processes ''signals'') = one_pathway_processes"
proof -
  obtain r s' where r: "set_resolution one_pathway_processes ''signals'' = (r, s')"
    by (cases "set_resolution one_pathway_processes ''signals''")
  have "r \<noteq> None"
    using r by (auto simp: one_pathway_processes_eq one_pathway_eq step_defs)
  then obtain e where e: "r = Some e" by auto
  have "s' = one_pathway_processes"
    using set_resolution_raises_unchanged r e by blast
  with r e show ?thesis by simp
qed

subsection \<open>Switching the resolution off\<close>

lemma convert_resolution_to_off:
  "new = 0 \<Longrightarrow> convert_resolution s old new = (None, s') \<Longrightarrow> s' = s"
  by (auto simp: convert_resolution_def split: if_splits sum.splits)

subsection \<open>Writing and reading a pathway\<close>

lemma map_of_dict_set_same [simp]: "map_of (dict_set kvs k v) k = Some v"
  by (induction kvs) auto

lemma map_of_dict_set_other [simp]: "k' \<noteq> k \<Longrightarrow> map_of (dict_set kvs k v) k' = map_of kvs k'"
  by (induction kvs) auto





lemma populated_flag [simp]:
  "populated (s\<lparr>current_dtype := a, current_tag := b, address_length := c\<rparr>) d t = populated s d t"
  by (simp add: populated_def)

lemma vacant_flag [simp]:
  "vacant (s\<lparr>current_dtype := a, current_tag := b, address_length := c\<rparr>) d t = vacant s d t"
  by (simp add: vacant_def)





subsection \<open>Reading before any write\<close>

lemma iadd_zeros_unit [simp]:
  "iadd (zeros Complex_kind (Suc 0, Suc 0)) (zeros Complex_kind (Suc 0, Suc 0)) = Inr (zeros Complex_kind (Suc 0, Suc 0))"
  by (simp add: array_defs)

lemma zero_storeD:
  "zero_store s \<Longrightarrow>
   \<not> storage_initialized s \<and>
   (\<exists>storage. d_data s = Some storage \<and>
      (\<forall>k \<in> set (level_keys (storage_resolution s)).
          map_of storage k = Some (Spectrum (zeros Complex_kind (1, 1)))))"
  by (auto simp: zero_store_def list_all_iff split: option.splits)

lemma zero_store_flag [simp]:
  "zero_store (s\<lparr>current_dtype := a, current_tag := b, address_length := c\<rparr>) = zero_store s"
  by (simp add: zero_store_def cong: option.case_cong)

lemma set_data_flag_name:
  "set_data_flag s (Flag d) = (None, s\<lparr>current_dtype := d, current_tag := None, address_length := 1\<rparr>)"
  by (simp add: set_data_flag_def)

lemma zero_store_types_read:
  assumes "\<not> storage_initialized s" "d_data s = Some storage" "storage_resolution s = ''types''"
    "\<forall>k \<in> set ptypes. map_of storage k = Some (Spectrum (zeros Complex_kind (1, 1)))"
    "d \<in> set (ptypes @ map fst processes @ map fst signals @ [''total''])"
    "current_dtype s = Some d"
  shows "get_d_data s = Inr (Some (Spectrum (zeros Complex_kind (1, 1))))"
proof -
  from assms(4) have k:
    "map_of storage ''R1g'' = Some (Spectrum (zeros Complex_kind (1, 1)))"
    "map_of storage ''R2g'' = Some (Spectrum (zeros Complex_kind (1, 1)))"
    "map_of storage ''R3g'' = Some (Spectrum (zeros Complex_kind (1, 1)))"
    "map_of storage ''R4g'' = Some (Spectrum (zeros Complex_kind (1, 1)))"
    "map_of storage ''R1fs'' = Some (Spectrum (zeros Complex_kind (1, 1)))"
    "map_of storage ''R2fs'' = Some (Spectrum (zeros Complex_kind (1, 1)))"
    "map_of storage ''R3fs'' = Some (Spectrum (zeros Complex_kind (1, 1)))"
    "map_of storage ''R4fs'' = Some (Spectrum (zeros Complex_kind (1, 1)))"
    by (simp_all add: ptypes_def)
  from assms(5) consider "d \<in> set ptypes" | "d \<in> set (map fst processes)"
    | "d \<in> set (map fst signals)" | "d = ''total''"
    by auto
  then show ?thesis
  proof cases
    case 1
    then show ?thesis
      using assms(1-3,6) k
      by (auto simp: get_d_data_def in_keys_def lookup_key_def ptypes_def)
  next
    case 2
    then show ?thesis
      using assms(1-3,6) k
      by (auto simp: get_d_data_def in_keys_def ptypes_def processes_eq as_array_def
          types_to_processes_def new_accumulator_def type_data_def)
  next
    case 3
    then show ?thesis
      using assms(1-3,6) k
      by (auto simp: get_d_data_def in_keys_def ptypes_def processes_eq signals_eq as_array_def
          types_to_processes_def types_to_signals_def new_accumulator_def type_data_def)
  next
    case 4
    then show ?thesis
      using assms(1-3,6)
      by (simp add: get_d_data_def in_keys_def ptypes_def processes_eq signals_eq as_array_def
          types_to_total_def)
  qed
qed

lemma zero_store_processes_read:
  assumes "\<not> storage_initialized s" "d_data s = Some storage" "storage_resolution s = ''processes''"
    "\<forall>k \<in> set (map fst processes). map_of storage k = Some (Spectrum (zeros Complex_kind (1, 1)))"
    "d \<in> set (map fst processes @ [''total''])"
    "current_dtype s = Some d"
  shows "get_d_data s = Inr (Some (Spectrum (zeros Complex_kind (1, 1))))"
  using assms
  by (auto simp: get_d_data_def in_keys_def lookup_key_def processes_eq as_array_def
      processes_to_total_def)

lemma zero_store_signals_read:
  assumes "\<not> storage_initialized s" "d_data s = Some storage" "storage_resolution s = ''signals''"
    "\<forall>k \<in> set (map fst signals). map_of storage k = Some (Spectrum (zeros Complex_kind (1, 1)))"
    "d \<in> set (map fst signals @ [''total''])"
    "current_dtype s = Some d"
  shows "get_d_data s = Inr (Some (Spectrum (zeros Complex_kind (1, 1))))"
  using assms
  by (auto simp: get_d_data_def in_keys_def lookup_key_def signals_eq as_array_def
      signals_to_total_def)

text \<open>
  C7, as amended. On a store that is not initialised and holds \<open>zeros Complex_kind (1, 1)\<close>
  under every key of its level (what lowering the resolution before any write
  leaves), reading with a name that the getter answers at that level returns the
  1x1 zero array and does not raise: at types resolution a pathway type, a
  process, a signal or total; at processes resolution a process or total; at
  signals resolution a signal or total.
\<close>

theorem zero_store_reads_zero:
  assumes z: "zero_store s" and d: "d \<in> set (answered (storage_resolution s))"
  shows "get_d_data (snd (set_data_flag s (Flag (Some d)))) = Inr (Some (Spectrum (zeros Complex_kind (1, 1))))"
proof -
  let ?a = "s\<lparr>current_dtype := Some d, current_tag := None, address_length := 1\<rparr>"
  have a: "snd (set_data_flag s (Flag (Some d))) = ?a"
    by (simp add: set_data_flag_name)
  from zero_storeD [OF z] obtain storage where
    u: "\<not> storage_initialized s" and st: "d_data s = Some storage"
    and k: "\<forall>k \<in> set (level_keys (storage_resolution s)).
              map_of storage k = Some (Spectrum (zeros Complex_kind (1, 1)))"
    by blast
  from d consider (types) "storage_resolution s = ''types''"
    | (processes) "storage_resolution s = ''processes''"
    | (signals) "storage_resolution s = ''signals''"
    by (auto simp: answered_def split: if_splits)
  then have "get_d_data ?a = Inr (Some (Spectrum (zeros Complex_kind (1, 1))))"
  proof cases
    case types
    with u st k d show ?thesis
      by (intro zero_store_types_read [where storage = storage and d = d])
        (simp_all add: level_keys_def answered_def)
  next
    case processes
    with u st k d show ?thesis
      by (intro zero_store_processes_read [where storage = storage and d = d])
        (simp_all add: level_keys_def answered_def)
  next
    case signals
    with u st k d show ?thesis
      by (intro zero_store_signals_read [where storage = storage and d = d])
        (simp_all add: level_keys_def answered_def)
  qed
  with a show ?thesis by simp
qed

lemma unwritten_eq:
  "unwritten =
     \<lparr>xaxis = Some unit_axis, yaxis = Some unit_axis, reph2D = None, nonr2D = None, data = None,
      dtype = None, storage_resolution = ''pathways'', storage_initialized = False,
      current_dtype = None, current_tag = None, address_length = 1, d_data = None,
      t2 = - 1\<rparr>"
  by (simp add: unwritten_def set_axis_1_def set_axis_3_def TwoDSpectrum_def)

lemma unwritten_to_types:
  "set_resolution unwritten ''types'' =
     (None, unwritten\<lparr>storage_resolution := ''types'',
       d_data := Some
         [(''R1g'', Spectrum (zeros Complex_kind (1, 1))), (''R2g'', Spectrum (zeros Complex_kind (1, 1))),
          (''R3g'', Spectrum (zeros Complex_kind (1, 1))), (''R4g'', Spectrum (zeros Complex_kind (1, 1))),
          (''R1fs'', Spectrum (zeros Complex_kind (1, 1))), (''R2fs'', Spectrum (zeros Complex_kind (1, 1))),
          (''R3fs'', Spectrum (zeros Complex_kind (1, 1))), (''R4fs'', Spectrum (zeros Complex_kind (1, 1)))]\<rparr>)"
  by (simp add: unwritten_eq step_defs ptypes_def)

lemma unwritten_types_eq:
  "unwritten_types =
     unwritten\<lparr>storage_resolution := ''types'',
       d_data := Some
         [(''R1g'', Spectrum (zeros Complex_kind (1, 1))), (''R2g'', Spectrum (zeros Complex_kind (1, 1))),
          (''R3g'', Spectrum (zeros Complex_kind (1, 1))), (''R4g'', Spectrum (zeros Complex_kind (1, 1))),
          (''R1fs'', Spectrum (zeros Complex_kind (1, 1))), (''R2fs'', Spectrum (zeros Complex_kind (1, 1))),
          (''R3fs'', Spectrum (zeros Complex_kind (1, 1))), (''R4fs'', Spectrum (zeros Complex_kind (1, 1)))]\<rparr>"
  by (simp add: unwritten_types_def unwritten_to_types)

lemmas lower_defs = new_accumulator_def type_data_def types_to_processes_def
  types_to_signals_def stored_spectrum_def signals_to_total_def processes_to_total_def
  processes_eq signals_eq

lemma unwritten_to_processes:
  "set_resolution unwritten_types ''processes'' =
     (None, unwritten\<lparr>storage_resolution := ''processes'',
       d_data := Some
         [(''GSB'', Spectrum (zeros Complex_kind (1, 1))), (''SE'', Spectrum (zeros Complex_kind (1, 1))),
          (''ESA'', Spectrum (zeros Complex_kind (1, 1))), (''DC'', Spectrum (zeros Complex_kind (1, 1)))]\<rparr>)"
  by (simp add: unwritten_types_eq unwritten_eq step_defs lower_defs)

lemma unwritten_processes_eq:
  "unwritten_processes =
     unwritten\<lparr>storage_resolution := ''processes'',
       d_data := Some
         [(''GSB'', Spectrum (zeros Complex_kind (1, 1))), (''SE'', Spectrum (zeros Complex_kind (1, 1))),
          (''ESA'', Spectrum (zeros Complex_kind (1, 1))), (''DC'', Spectrum (zeros Complex_kind (1, 1)))]\<rparr>"
  by (simp add: unwritten_processes_def unwritten_to_processes)

lemma unwritten_to_signals:
  "set_resolution unwritten_types ''signals'' =
     (None, unwritten\<lparr>storage_resolution := ''signals'',
       d_data := Some
         [(''REPH'', Spectrum (zeros Complex_kind (1, 1))), (''NONR'', Spectrum (zeros Complex_kind (1, 1))),
          (''DC'', Spectrum (zeros Complex_kind (1, 1)))]\<rparr>)"
  by (simp add: unwritten_types_eq unwritten_eq step_defs lower_defs)

lemma unwritten_signals_eq:
  "unwritten_signals =
     unwritten\<lparr>storage_resolution := ''signals'',
       d_data := Some
         [(''REPH'', Spectrum (zeros Complex_kind (1, 1))), (''NONR'', Spectrum (zeros Complex_kind (1, 1))),
          (''DC'', Spectrum (zeros Complex_kind (1, 1)))]\<rparr>"
  by (simp add: unwritten_signals_def unwritten_to_signals)

lemma unwritten_to_off:
  "set_resolution unwritten_signals ''off''
     = (None, unwritten_signals\<lparr>storage_resolution := ''off''\<rparr>)"
  by (simp add: unwritten_signals_eq unwritten_eq step_defs lower_defs)

lemma unwritten_off_eq:
  "unwritten_off = unwritten_signals\<lparr>storage_resolution := ''off''\<rparr>"
  by (simp add: unwritten_off_def unwritten_to_off)

lemma unwritten_zero_stores:
  "zero_store unwritten_types" "zero_store unwritten_processes" "zero_store unwritten_signals"
  by (simp_all add: zero_store_def level_keys_def unwritten_types_eq unwritten_processes_eq
      unwritten_signals_eq unwritten_eq ptypes_def processes_eq signals_eq)

text \<open>
  On the object as the constructor leaves it the attribute \<^verbatim>\<open>_d__data\<close> does not
  exist, and the first statement of the getter raises.
\<close>

lemma unwritten_read_raises:
  "get_d_data (snd (set_data_flag unwritten (Flag (Some ''total'')))) = Inl AttributeError"
  by (simp add: unwritten_eq set_data_flag_def get_d_data_def)

theorem zero_store_reads_zero_witness:
  "zero_store unwritten_types
   \<and> ''GSB'' \<in> set (answered (storage_resolution unwritten_types))
   \<and> get_d_data (snd (set_data_flag unwritten_types (Flag (Some ''GSB''))))
       = Inr (Some (Spectrum (NDArray Complex_kind (1, 1) [[0]])))"
proof -
  have z: "zero_store unwritten_types" by (rule unwritten_zero_stores)
  have d: "''GSB'' \<in> set (answered (storage_resolution unwritten_types))"
    by (simp add: unwritten_types_eq answered_def processes_eq)
  have "zeros Complex_kind (1, 1) = NDArray Complex_kind (1, 1) [[0]]" by (simp add: zeros_def)
  with zero_store_reads_zero [OF z d]
  have "get_d_data (snd (set_data_flag unwritten_types (Flag (Some ''GSB''))))
       = Inr (Some (Spectrum (NDArray Complex_kind (1, 1) [[0]])))"
    by simp
  with z d show ?thesis by blast
qed

text \<open>
  C7 as stated fails. The store of \<open>unwritten_off\<close> and of \<open>unwritten_processes\<close>
  is not initialised. At resolution off, reading the total raises
  \<^verbatim>\<open>Exception("not implemented")\<close>; at processes resolution, reading with the
  pathway type R1g returns \<^verbatim>\<open>None\<close>.
\<close>

theorem unwritten_reads_fail:
  "\<not> storage_initialized unwritten_off
   \<and> storage_resolution unwritten_off = ''off''
   \<and> get_d_data (snd (set_data_flag unwritten_off (Flag (Some ''total''))))
       = Inl (Exception ''not implemented'')
   \<and> \<not> storage_initialized unwritten_processes
   \<and> storage_resolution unwritten_processes = ''processes''
   \<and> get_d_data (snd (set_data_flag unwritten_processes (Flag (Some ''R1g'')))) = Inr None"
  by (simp add: unwritten_off_eq unwritten_signals_eq unwritten_processes_eq unwritten_eq
      set_data_flag_def get_d_data_def in_keys_def processes_eq)

subsection \<open>Sums that do not raise\<close>

lemma iadd_same_shape:
  "shape b = shape a \<Longrightarrow> kind a = Complex_kind \<Longrightarrow>
   \<exists>r. iadd a b = Inr r \<and> shape r = shape a \<and> kind r = Complex_kind"
  by (simp add: iadd_def)

lemma iadd_shape: "iadd a b = Inr r \<Longrightarrow> shape r = shape a"
  by (auto simp: iadd_def split: if_splits)

lemma sum_into_shape: "sum_into acc as = Inr r \<Longrightarrow> shape r = shape acc"
proof (induction as arbitrary: acc)
  case Nil
  then show ?case by simp
next
  case (Cons a as)
  then show ?case by (auto split: sum.splits dest!: iadd_shape)
qed

lemma sum_into_ok:
  "\<forall>a \<in> set as. shape a = shape acc \<Longrightarrow> kind acc = Complex_kind \<Longrightarrow>
   \<exists>r. sum_into acc as = Inr r"
proof (induction as arbitrary: acc)
  case Nil
  then show ?case by simp
next
  case (Cons a as)
  then obtain acc' where a: "iadd acc a = Inr acc'" "shape acc' = shape acc"
    "kind acc' = Complex_kind"
    using iadd_same_shape [of a acc] by auto
  with Cons.prems have "\<forall>b \<in> set as. shape b = shape acc'" by simp
  from Cons.IH [OF this a(3)] a show ?case by simp
qed

lemma sum_types_shape: "sum_types s acc dts = Inr r \<Longrightarrow> shape r = shape acc"
proof (induction dts arbitrary: acc)
  case Nil
  then show ?case by simp
next
  case (Cons dt dts)
  then show ?case by (auto split: sum.splits option.splits dest!: iadd_shape)
qed

lemma sum_types_ok:
  assumes "\<forall>dt \<in> set dts. type_data s dt = Inr None
             \<or> (\<exists>a. type_data s dt = Inr (Some a) \<and> shape a = shape acc)"
    and "kind acc = Complex_kind"
  shows "\<exists>r. sum_types s acc dts = Inr r"
  using assms
proof (induction dts arbitrary: acc)
  case Nil
  then show ?case by simp
next
  case (Cons dt dts)
  from Cons.prems consider "type_data s dt = Inr None"
    | a where "type_data s dt = Inr (Some a)" "shape a = shape acc"
    by auto
  then show ?case
  proof cases
    case 1
    with Cons show ?thesis by simp
  next
    case 2
    then obtain acc' where a: "iadd acc a = Inr acc'" "shape acc' = shape acc"
      "kind acc' = Complex_kind"
      using iadd_same_shape [of a acc] Cons.prems(2) by auto
    with Cons.prems have "\<forall>dt \<in> set dts. type_data s dt = Inr None
             \<or> (\<exists>a. type_data s dt = Inr (Some a) \<and> shape a = shape acc')"
      by simp
    from Cons.IH [OF this a(3)] 2 a show ?thesis by simp
  qed
qed

lemma add_each_shape: "add_each f acc ks = Inr r \<Longrightarrow> shape r = shape acc"
proof (induction ks arbitrary: acc)
  case Nil
  then show ?case by simp
next
  case (Cons k ks)
  then show ?case by (auto split: sum.splits dest!: iadd_shape)
qed

lemma add_each_ok:
  assumes "\<forall>k \<in> set ks. \<exists>a. f k = Inr a \<and> shape a = shape acc"
    and "kind acc = Complex_kind"
  shows "\<exists>r. add_each f acc ks = Inr r"
  using assms
proof (induction ks arbitrary: acc)
  case Nil
  then show ?case by simp
next
  case (Cons k ks)
  then obtain a where fa: "f k = Inr a" "shape a = shape acc" by auto
  then obtain acc' where a: "iadd acc a = Inr acc'" "shape acc' = shape acc"
    "kind acc' = Complex_kind"
    using iadd_same_shape [of a acc] Cons.prems(2) by auto
  with Cons.prems have "\<forall>k \<in> set ks. \<exists>a. f k = Inr a \<and> shape a = shape acc'" by simp
  from Cons.IH [OF this a(3)] fa a show ?case by simp
qed

lemma convert_each_ok:
  "\<forall>k \<in> set ks. \<exists>a. f k = Inr a \<Longrightarrow> \<exists>storage'. convert_each f storage ks = Inr storage'"
proof (induction ks arbitrary: storage)
  case Nil
  then show ?case by simp
next
  case (Cons k ks)
  then obtain a where "f k = Inr a" by auto
  with Cons show ?case by simp
qed

subsection \<open>Dictionaries of arrays of one shape\<close>


lemma spectra_of_shape_Nil [simp]: "spectra_of_shape sh []"
  by (simp add: spectra_of_shape_def)

lemma spectra_of_shape_dict_set:
  "spectra_of_shape sh storage \<Longrightarrow> shape a = sh
     \<Longrightarrow> spectra_of_shape sh (dict_set storage k (Spectrum a))"
  unfolding spectra_of_shape_def
proof (intro allI impI)
  fix k' e
  assume p: "\<forall>k e. map_of storage k = Some e \<longrightarrow> (\<exists>a. e = Spectrum a \<and> shape a = sh)"
    and a: "shape a = sh"
    and m: "map_of (dict_set storage k (Spectrum a)) k' = Some e"
  show "\<exists>a. e = Spectrum a \<and> shape a = sh"
  proof (cases "k' = k")
    case True
    with m a show ?thesis by auto
  next
    case False
    with m p show ?thesis by simp
  qed
qed

lemma convert_each_result:
  assumes "\<forall>k \<in> set ks. \<exists>a. f k = Inr a \<and> shape a = sh" "spectra_of_shape sh storage"
  shows "\<exists>storage'. convert_each f storage ks = Inr storage' \<and> spectra_of_shape sh storage'
           \<and> (\<forall>k \<in> set ks. map_of storage' k \<noteq> None)
           \<and> (\<forall>k. map_of storage k \<noteq> None \<longrightarrow> map_of storage' k \<noteq> None)"
  using assms
proof (induction ks arbitrary: storage)
  case Nil
  then show ?case by simp
next
  case (Cons k ks)
  then obtain a where a: "f k = Inr a" "shape a = sh" by auto
  let ?st = "dict_set storage k (Spectrum a)"
  have sp: "spectra_of_shape sh ?st"
    using Cons.prems(2) a(2) by (rule spectra_of_shape_dict_set)
  from Cons.prems(1) have "\<forall>k \<in> set ks. \<exists>a. f k = Inr a \<and> shape a = sh" by simp
  from Cons.IH [OF this sp] obtain storage' where
    r: "convert_each f ?st ks = Inr storage'" "spectra_of_shape sh storage'"
       "\<forall>k \<in> set ks. map_of storage' k \<noteq> None"
       "\<forall>k'. map_of ?st k' \<noteq> None \<longrightarrow> map_of storage' k' \<noteq> None"
    by blast
  have k: "map_of storage' k \<noteq> None" using r(4) by simp
  have old: "\<forall>k'. map_of storage k' \<noteq> None \<longrightarrow> map_of storage' k' \<noteq> None"
  proof (intro allI impI)
    fix k'
    assume "map_of storage k' \<noteq> None"
    then have "map_of ?st k' \<noteq> None" by (cases "k' = k") simp_all
    with r(4) show "map_of storage' k' \<noteq> None" by blast
  qed
  from a r k old show ?case by auto
qed

subsection \<open>Consistent objects\<close>

lemma store_shape_unset [simp]: "\<not> storage_initialized s \<Longrightarrow> store_shape s = (1, 1)"
  by (simp add: store_shape_def)

lemma consistent_axes:
  "consistent s \<Longrightarrow> storage_initialized s \<Longrightarrow> axes_zeros s = Inr (zeros Complex_kind (store_shape s))"
  by (auto simp: consistent_def axes_zeros_def store_shape_def)

lemma consistent_accumulator:
  "consistent s \<Longrightarrow> new_accumulator s = Inr (zeros Complex_kind (store_shape s))"
  by (simp add: new_accumulator_def consistent_axes)

lemma consistent_pathways:
  assumes "consistent s" "storage_resolution s = ''pathways''"
  shows "(d_data s = None \<and> \<not> storage_initialized s)
       \<or> (storage_initialized s \<and> (\<exists>storage. d_data s = Some storage \<and>
            (\<forall>dt \<in> set ptypes. map_of storage dt = None
               \<or> (\<exists>piece. map_of storage dt = Some (Pathways piece)
                     \<and> (\<forall>a \<in> set (map snd piece). shape a = store_shape s)))))"
proof (cases "d_data s")
  case None
  with assms show ?thesis by (simp add: consistent_def)
next
  case (Some storage)
  with assms have i: "storage_initialized s"
    and l: "list_all (\<lambda>dt. case map_of storage dt of
                             None \<Rightarrow> True
                           | Some (Pathways piece) \<Rightarrow> list_all (fits s) (map snd piece)
                           | Some (Spectrum a) \<Rightarrow> False) ptypes"
    by (simp_all add: consistent_def)
  have "\<forall>dt \<in> set ptypes. map_of storage dt = None
               \<or> (\<exists>piece. map_of storage dt = Some (Pathways piece)
                     \<and> (\<forall>a \<in> set (map snd piece). shape a = store_shape s))"
  proof
    fix dt
    assume "dt \<in> set ptypes"
    with l have "case map_of storage dt of
                             None \<Rightarrow> True
                           | Some (Pathways piece) \<Rightarrow> list_all (fits s) (map snd piece)
                           | Some (Spectrum a) \<Rightarrow> False"
      by (simp add: list_all_iff)
    then show "map_of storage dt = None
               \<or> (\<exists>piece. map_of storage dt = Some (Pathways piece)
                     \<and> (\<forall>a \<in> set (map snd piece). shape a = store_shape s))"
      by (auto simp: list_all_iff fits_def split: option.splits entry.splits)
  qed
  with i Some show ?thesis by simp
qed

lemma consistent_types:
  assumes "consistent s" "storage_resolution s = ''types''"
  shows "\<exists>storage. d_data s = Some storage \<and>
            (\<forall>dt \<in> set ptypes. map_of storage dt = None
               \<or> (\<exists>a. map_of storage dt = Some (Spectrum a) \<and> shape a = store_shape s))"
proof (cases "d_data s")
  case None
  with assms show ?thesis by (simp add: consistent_def)
next
  case (Some storage)
  with assms have
    l: "list_all (\<lambda>dt. case map_of storage dt of
                             None \<Rightarrow> True
                           | Some (Spectrum a) \<Rightarrow> fits s a
                           | Some (Pathways piece) \<Rightarrow> False) ptypes"
    by (simp add: consistent_def)
  have "\<forall>dt \<in> set ptypes. map_of storage dt = None
               \<or> (\<exists>a. map_of storage dt = Some (Spectrum a) \<and> shape a = store_shape s)"
  proof
    fix dt
    assume "dt \<in> set ptypes"
    with l have "case map_of storage dt of
                             None \<Rightarrow> True
                           | Some (Spectrum a) \<Rightarrow> fits s a
                           | Some (Pathways piece) \<Rightarrow> False"
      by (simp add: list_all_iff)
    then show "map_of storage dt = None
               \<or> (\<exists>a. map_of storage dt = Some (Spectrum a) \<and> shape a = store_shape s)"
      by (auto simp: fits_def split: option.splits entry.splits)
  qed
  with Some show ?thesis by simp
qed

lemma consistent_keys:
  assumes "consistent s"
    and "storage_resolution s = ''processes'' \<and> ks = map fst processes
         \<or> storage_resolution s = ''signals'' \<and> ks = map fst signals"
  shows "\<exists>storage. d_data s = Some storage \<and>
            (\<forall>k \<in> set ks. \<exists>a. map_of storage k = Some (Spectrum a) \<and> shape a = store_shape s)"
proof (cases "d_data s")
  case None
  with assms show ?thesis by (auto simp: consistent_def)
next
  case (Some storage)
  with assms have
    l: "list_all (\<lambda>k. case map_of storage k of
                            Some (Spectrum a) \<Rightarrow> fits s a
                          | Some (Pathways piece) \<Rightarrow> False
                          | None \<Rightarrow> False) ks"
    by (auto simp: consistent_def)
  have "\<forall>k \<in> set ks. \<exists>a. map_of storage k = Some (Spectrum a) \<and> shape a = store_shape s"
  proof
    fix k
    assume "k \<in> set ks"
    with l have "case map_of storage k of
                            Some (Spectrum a) \<Rightarrow> fits s a
                          | Some (Pathways piece) \<Rightarrow> False
                          | None \<Rightarrow> False"
      by (simp add: list_all_iff)
    then show "\<exists>a. map_of storage k = Some (Spectrum a) \<and> shape a = store_shape s"
      by (auto simp: fits_def split: option.splits entry.splits)
  qed
  with Some show ?thesis by simp
qed

lemma convert_pathways_consistent:
  assumes "consistent s" "storage_resolution s = ''pathways''" "set dts \<subseteq> set ptypes"
    "b \<or> d_data s = None" "spectra_of_shape (store_shape s) storage"
  shows "\<exists>storage'. convert_pathways s storage b dts = Inr storage'
           \<and> spectra_of_shape (store_shape s) storage'"
  using assms(3-5)
proof (induction dts arbitrary: storage b)
  case Nil
  then show ?case by simp
next
  case (Cons dt dts)
  from Cons.prems(1) have dt: "dt \<in> set ptypes" and sub: "set dts \<subseteq> set ptypes" by auto
  from consistent_pathways [OF assms(1,2)]
  consider (unset) "d_data s = None" "\<not> storage_initialized s"
    | (present) st where "storage_initialized s" "d_data s = Some st"
        "\<forall>dt \<in> set ptypes. map_of st dt = None
               \<or> (\<exists>piece. map_of st dt = Some (Pathways piece)
                     \<and> (\<forall>a \<in> set (map snd piece). shape a = store_shape s))"
    by (elim disjE conjE exE) auto
  then show ?case
  proof cases
    case unset
    let ?st = "dict_set storage dt (Spectrum (zeros Complex_kind (1, 1)))"
    have "spectra_of_shape (store_shape s) ?st"
      using Cons.prems(3) unset(2) by (intro spectra_of_shape_dict_set) simp_all
    from Cons.IH [OF sub _ this, of False] unset(1)
    obtain storage' where "convert_pathways s ?st False dts = Inr storage'"
      "spectra_of_shape (store_shape s) storage'"
      by auto
    with unset show ?thesis by (simp add: Let_def)
  next
    case present
    with Cons.prems(2) have b: "b" by simp
    have z: "axes_zeros s = Inr (zeros Complex_kind (store_shape s))"
      using assms(1) present(1) by (rule consistent_axes)
    from present(3) dt consider (absent) "map_of st dt = None"
      | (piece) piece where "map_of st dt = Some (Pathways piece)"
          "\<forall>a \<in> set (map snd piece). shape a = store_shape s"
      by (elim ballE [where x = dt] disjE conjE exE) auto
    then obtain arrays where
      arrays: "(case map_of st dt of
                  None \<Rightarrow> Inr []
                | Some (Pathways pdict) \<Rightarrow> Inr (map snd pdict)
                | Some (Spectrum a) \<Rightarrow> Inl AttributeError) = Inr arrays"
        "\<forall>a \<in> set arrays. shape a = shape (zeros Complex_kind (store_shape s))"
      by cases auto
    from sum_into_ok [OF arrays(2) kind_zeros] obtain acc' where
      acc': "sum_into (zeros Complex_kind (store_shape s)) arrays = Inr acc'"
      by blast
    from sum_into_shape [OF this] have sh: "shape acc' = store_shape s" by simp
    let ?st = "dict_set storage dt (Spectrum acc')"
    have "spectra_of_shape (store_shape s) ?st"
      using Cons.prems(3) sh by (rule spectra_of_shape_dict_set)
    from Cons.IH [OF sub _ this, of True]
    obtain storage' where "convert_pathways s ?st True dts = Inr storage'"
      "spectra_of_shape (store_shape s) storage'"
      by auto
    with present(2) b z arrays(1) acc' show ?thesis by (simp add: Let_def)
  qed
qed

lemma type_data_consistent:
  assumes "consistent s" "storage_resolution s = ''types''" "dt \<in> set ptypes"
  shows "type_data s dt = Inr None
       \<or> (\<exists>a. type_data s dt = Inr (Some a) \<and> shape a = store_shape s)"
proof -
  from consistent_types [OF assms(1,2)] assms(3) obtain storage where
    "d_data s = Some storage"
    "map_of storage dt = None
       \<or> (\<exists>a. map_of storage dt = Some (Spectrum a) \<and> shape a = store_shape s)"
    by blast
  then show ?thesis by (auto simp: type_data_def)
qed

lemma sum_types_consistent:
  assumes "consistent s" "storage_resolution s = ''types''" "set dts \<subseteq> set ptypes"
  shows "\<exists>a. sum_types s (zeros Complex_kind (store_shape s)) dts = Inr a \<and> shape a = store_shape s"
proof -
  have "\<forall>dt \<in> set dts. type_data s dt = Inr None
          \<or> (\<exists>a. type_data s dt = Inr (Some a) \<and> shape a = shape (zeros Complex_kind (store_shape s)))"
    using type_data_consistent [OF assms(1,2)] assms(3) by auto
  from sum_types_ok [OF this kind_zeros] obtain a where a: "sum_types s (zeros Complex_kind (store_shape s)) dts = Inr a"
    by blast
  from sum_types_shape [OF this] a show ?thesis by simp
qed

lemma processes_types:
  "k \<in> set (map fst processes) \<Longrightarrow> \<exists>dts. map_of processes k = Some dts \<and> set dts \<subseteq> set ptypes"
  by (auto simp: processes_eq ptypes_def)

lemma signals_types:
  "k \<in> set (map fst signals) \<Longrightarrow> \<exists>dts. map_of signals k = Some dts \<and> set dts \<subseteq> set ptypes"
  by (auto simp: signals_eq ptypes_def)

lemma types_to_processes_consistent:
  assumes "consistent s" "storage_resolution s = ''types''" "k \<in> set (map fst processes)"
  shows "\<exists>a. types_to_processes s k = Inr a \<and> shape a = store_shape s"
proof -
  from processes_types [OF assms(3)] obtain dts where
    dts: "map_of processes k = Some dts" "set dts \<subseteq> set ptypes"
    by blast
  from sum_types_consistent [OF assms(1,2) dts(2)] dts(1) consistent_accumulator [OF assms(1)]
  show ?thesis by (simp add: types_to_processes_def)
qed

lemma types_to_signals_consistent:
  assumes "consistent s" "storage_resolution s = ''types''" "k \<in> set (map fst signals)"
  shows "\<exists>a. types_to_signals s k = Inr a \<and> shape a = store_shape s"
proof -
  from signals_types [OF assms(3)] obtain dts where
    dts: "map_of signals k = Some dts" "set dts \<subseteq> set ptypes"
    by blast
  from sum_types_consistent [OF assms(1,2) dts(2)] dts(1) consistent_accumulator [OF assms(1)]
  show ?thesis by (simp add: types_to_signals_def)
qed

lemma stored_total_consistent:
  assumes "consistent s"
    and "storage_resolution s = ''processes'' \<and> ks = map fst processes
         \<or> storage_resolution s = ''signals'' \<and> ks = map fst signals"
  shows "\<exists>r. (if storage_initialized s
              then (case axes_zeros s of
                      Inl e \<Rightarrow> Inl e
                    | Inr acc \<Rightarrow> add_each (stored_spectrum s) acc ks)
              else Inr (zeros Complex_kind (1, 1))) = Inr r"
proof (cases "storage_initialized s")
  case False
  then show ?thesis by simp
next
  case True
  from consistent_keys [OF assms] obtain storage where
    st: "d_data s = Some storage"
    "\<forall>k \<in> set ks. \<exists>a. map_of storage k = Some (Spectrum a) \<and> shape a = store_shape s"
    by blast
  have "\<forall>k \<in> set ks. \<exists>a. stored_spectrum s k = Inr a \<and> shape a = shape (zeros Complex_kind (store_shape s))"
  proof
    fix k
    assume "k \<in> set ks"
    with st(2) obtain a where "map_of storage k = Some (Spectrum a)" "shape a = store_shape s"
      by blast
    with st(1) show "\<exists>a. stored_spectrum s k = Inr a \<and> shape a = shape (zeros Complex_kind (store_shape s))"
      by (simp add: stored_spectrum_def)
  qed
  from add_each_ok [OF this] consistent_axes [OF assms(1) True] True show ?thesis by simp
qed

lemma store_shape_update [simp]:
  "store_shape (s\<lparr>d_data := x\<rparr>) = store_shape s"
  "store_shape (s\<lparr>storage_resolution := r\<rparr>) = store_shape s"
  by (simp_all add: store_shape_def cong: option.case_cong)

lemma fits_update [simp]:
  "fits (s\<lparr>d_data := x\<rparr>) a = fits s a"
  "fits (s\<lparr>storage_resolution := r\<rparr>) a = fits s a"
  by (simp_all add: fits_def)

lemma spectra_case_types:
  "spectra_of_shape sh storage \<Longrightarrow>
   (case map_of storage k of
      None \<Rightarrow> True
    | Some (Spectrum a) \<Rightarrow> shape a = sh
    | Some (Pathways piece) \<Rightarrow> False)"
  by (auto simp: spectra_of_shape_def split: option.splits entry.splits)

lemma spectra_case_keys:
  "spectra_of_shape sh storage \<Longrightarrow> map_of storage k \<noteq> None \<Longrightarrow>
   (case map_of storage k of
      Some (Spectrum a) \<Rightarrow> shape a = sh
    | Some (Pathways piece) \<Rightarrow> False
    | None \<Rightarrow> False)"
  by (auto simp: spectra_of_shape_def split: option.splits entry.splits)

lemma consistent_initialized_axes:
  "consistent s \<Longrightarrow> storage_initialized s \<longrightarrow> xaxis s \<noteq> None \<and> yaxis s \<noteq> None"
  by (simp add: consistent_def)

lemma consistent_types_intro:
  assumes "consistent s" "spectra_of_shape (store_shape s) storage"
  shows "consistent (s\<lparr>d_data := Some storage, storage_resolution := ''types''\<rparr>)"
  using consistent_initialized_axes [OF assms(1)] spectra_case_types [OF assms(2)]
  by (simp add: consistent_def resolutions_def list_all_iff fits_def
      cong: option.case_cong entry.case_cong)

lemma consistent_processes_intro:
  assumes "consistent s" "spectra_of_shape (store_shape s) storage"
    "\<forall>k \<in> set (map fst processes). map_of storage k \<noteq> None"
  shows "consistent (s\<lparr>d_data := Some storage, storage_resolution := ''processes''\<rparr>)"
  using consistent_initialized_axes [OF assms(1)] spectra_case_keys [OF assms(2)] assms(3)
  by (simp add: consistent_def resolutions_def list_all_iff fits_def
      cong: option.case_cong entry.case_cong)

lemma consistent_signals_intro:
  assumes "consistent s" "spectra_of_shape (store_shape s) storage"
    "\<forall>k \<in> set (map fst signals). map_of storage k \<noteq> None"
  shows "consistent (s\<lparr>d_data := Some storage, storage_resolution := ''signals''\<rparr>)"
  using consistent_initialized_axes [OF assms(1)] spectra_case_keys [OF assms(2)] assms(3)
  by (simp add: consistent_def resolutions_def list_all_iff fits_def
      cong: option.case_cong entry.case_cong)

lemma consistent_off_intro:
  assumes "consistent s" "d_data s \<noteq> None"
  shows "consistent (s\<lparr>storage_resolution := ''off''\<rparr>)"
  using consistent_initialized_axes [OF assms(1)] assms(2)
  by (auto simp: consistent_def resolutions_def)

lemma resolution2number_level:
  "res \<in> set resolutions \<Longrightarrow> resolution2number res = Inr (level res)"
  by (simp add: resolution2number_def level_def)

lemma set_resolution_same:
  assumes "consistent s" "r = storage_resolution s"
  shows "set_resolution s r = (None, s)"
proof -
  from assms have "r \<in> set resolutions" by (simp add: consistent_def)
  moreover have "s\<lparr>storage_resolution := storage_resolution s\<rparr> = s" by simp
  ultimately show ?thesis
    using assms(2) by (simp add: set_resolution_def resolution2number_level)
qed

text \<open>
  On a consistent object every legal transition returns, and the object after it
  is consistent again.
\<close>

lemma set_resolution_consistent:
  assumes c: "consistent s" and a: "allowed (storage_resolution s) r"
  shows "\<exists>s'. set_resolution s r = (None, s') \<and> consistent s'"
proof -
  from a consider (same) "r = storage_resolution s"
    | (pt) "storage_resolution s = ''pathways''" "r = ''types''"
    | (tp) "storage_resolution s = ''types''" "r = ''processes''"
    | (ts) "storage_resolution s = ''types''" "r = ''signals''"
    | (so) "storage_resolution s = ''signals''" "r = ''off''"
    | (po) "storage_resolution s = ''processes''" "r = ''off''"
    by (auto simp: allowed_def conversions_def)
  then show ?thesis
  proof cases
    case same
    with c set_resolution_same [OF c same] show ?thesis by simp
  next
    case pt
    from convert_pathways_consistent [OF c pt(1), of ptypes True "[]"]
    obtain storage where st: "convert_pathways s [] True ptypes = Inr storage"
      "spectra_of_shape (store_shape s) storage"
      by auto
    from pt st(1) have "set_resolution s r
        = (None, s\<lparr>d_data := Some storage, storage_resolution := ''types''\<rparr>)"
      by (simp add: step_defs)
    with consistent_types_intro [OF c st(2)] show ?thesis by simp
  next
    case tp
    have "\<forall>k \<in> set (map fst processes). \<exists>a. types_to_processes s k = Inr a \<and> shape a = store_shape s"
      using types_to_processes_consistent [OF c tp(1)] by blast
    from convert_each_result [OF this spectra_of_shape_Nil]
    obtain storage where st: "convert_each (types_to_processes s) [] (map fst processes) = Inr storage"
      "spectra_of_shape (store_shape s) storage"
      "\<forall>k \<in> set (map fst processes). map_of storage k \<noteq> None"
      by blast
    from tp st(1) have "set_resolution s r
        = (None, s\<lparr>d_data := Some storage, storage_resolution := ''processes''\<rparr>)"
      by (simp add: step_defs)
    with consistent_processes_intro [OF c st(2,3)] show ?thesis by simp
  next
    case ts
    have "\<forall>k \<in> set (map fst signals). \<exists>a. types_to_signals s k = Inr a \<and> shape a = store_shape s"
      using types_to_signals_consistent [OF c ts(1)] by blast
    from convert_each_result [OF this spectra_of_shape_Nil]
    obtain storage where st: "convert_each (types_to_signals s) [] (map fst signals) = Inr storage"
      "spectra_of_shape (store_shape s) storage"
      "\<forall>k \<in> set (map fst signals). map_of storage k \<noteq> None"
      by blast
    from ts st(1) have "set_resolution s r
        = (None, s\<lparr>d_data := Some storage, storage_resolution := ''signals''\<rparr>)"
      by (simp add: step_defs)
    with consistent_signals_intro [OF c st(2,3)] show ?thesis by simp
  next
    case so
    from stored_total_consistent [OF c, of "map fst signals"] so(1)
    obtain tot where "signals_to_total s = Inr tot"
      by (auto simp: signals_to_total_def)
    with so have "set_resolution s r = (None, s\<lparr>storage_resolution := ''off''\<rparr>)"
      by (simp add: step_defs)
    moreover from c so(1) have "d_data s \<noteq> None"
      by (auto simp: consistent_def split: option.splits)
    ultimately show ?thesis using consistent_off_intro [OF c] by simp
  next
    case po
    from stored_total_consistent [OF c, of "map fst processes"] po(1)
    obtain tot where "processes_to_total s = Inr tot"
      by (auto simp: processes_to_total_def)
    with po have "set_resolution s r = (None, s\<lparr>storage_resolution := ''off''\<rparr>)"
      by (simp add: step_defs)
    moreover from c po(1) have "d_data s \<noteq> None"
      by (auto simp: consistent_def split: option.splits)
    ultimately show ?thesis using consistent_off_intro [OF c] by simp
  qed
qed

subsection \<open>The transitions of set_resolution\<close>

lemma not_allowed_raises:
  assumes "\<not> allowed (storage_resolution s) r"
  shows "fst (set_resolution s r) \<noteq> None"
proof (cases "r \<in> set resolutions \<and> storage_resolution s \<in> set resolutions")
  case False
  then show ?thesis
    by (auto simp: set_resolution_def resolution2number_def)
next
  case True
  then have r: "r = ''off'' \<or> r = ''signals'' \<or> r = ''processes'' \<or> r = ''types'' \<or> r = ''pathways''"
    and old: "storage_resolution s = ''off'' \<or> storage_resolution s = ''signals''
       \<or> storage_resolution s = ''processes'' \<or> storage_resolution s = ''types''
       \<or> storage_resolution s = ''pathways''"
    by (auto simp: resolutions_def)
  from old r assms show ?thesis
    by (elim disjE) (simp_all add: allowed_def conversions_def step_defs)
qed

lemma convert_resolution_keeps_level:
  "convert_resolution s old new = (x, s') \<Longrightarrow> storage_resolution s' = storage_resolution s"
  by (auto simp: convert_resolution_def split: if_splits sum.splits)

lemma returns_level:
  assumes "fst (set_resolution s r) = None"
  shows "storage_resolution (snd (set_resolution s r)) = r
       \<and> level r \<le> level (storage_resolution s)"
proof -
  from assms have r: "r \<in> set resolutions"
    by (auto simp: set_resolution_def split: if_splits)
  from assms r have old: "storage_resolution s \<in> set resolutions"
    by (auto simp: set_resolution_def resolution2number_def split: if_splits)
  from assms r old have le: "level r \<le> level (storage_resolution s)"
    by (auto simp: set_resolution_def resolution2number_level split: if_splits)
  from assms r old have "storage_resolution (snd (set_resolution s r)) = r"
    by (auto simp: set_resolution_def resolution2number_level
        split: if_splits prod.splits option.splits)
  with le show ?thesis by simp
qed

text \<open>
  C2, as amended. On every consistent object \<^verbatim>\<open>set_resolution\<close> returns exactly
  for the legal transitions: pathways to types, types to processes, types to
  signals, signals to off, processes to off, and the current level. On every
  object, consistent or not, a request that is not a legal transition raises; and
  a call that returns leaves the requested resolution, whose level is not above
  the level before the call.
\<close>

theorem set_resolution_transitions:
  "(consistent s \<longrightarrow> (fst (set_resolution s r) = None) = allowed (storage_resolution s) r)
   \<and> (\<not> allowed (storage_resolution s) r \<longrightarrow> fst (set_resolution s r) \<noteq> None)
   \<and> (fst (set_resolution s r) = None \<longrightarrow>
        storage_resolution (snd (set_resolution s r)) = r
        \<and> level r \<le> level (storage_resolution s))"
proof (intro conjI impI)
  assume c: "consistent s"
  show "(fst (set_resolution s r) = None) = allowed (storage_resolution s) r"
  proof
    assume "fst (set_resolution s r) = None"
    with not_allowed_raises [of s r] show "allowed (storage_resolution s) r" by blast
  next
    assume "allowed (storage_resolution s) r"
    from set_resolution_consistent [OF c this] show "fst (set_resolution s r) = None" by auto
  qed
next
  assume "\<not> allowed (storage_resolution s) r"
  then show "fst (set_resolution s r) \<noteq> None" by (rule not_allowed_raises)
next
  assume "fst (set_resolution s r) = None"
  from returns_level [OF this] show "storage_resolution (snd (set_resolution s r)) = r" ..
next
  assume "fst (set_resolution s r) = None"
  from returns_level [OF this] show "level r \<le> level (storage_resolution s)" ..
qed

lemma consistent_examples:
  "consistent TwoDSpectrum" "consistent unwritten" "consistent one_pathway"
  by (simp_all add: consistent_def TwoDSpectrum_def unwritten_eq one_pathway_eq resolutions_def
      ptypes_def fits_def store_shape_def unit_axis_def)

theorem set_resolution_transitions_witness:
  "consistent one_pathway
   \<and> allowed (storage_resolution one_pathway) ''types''
   \<and> fst (set_resolution one_pathway ''types'') = None
   \<and> storage_resolution (snd (set_resolution one_pathway ''types'')) = ''types''
   \<and> level ''types'' \<le> level (storage_resolution one_pathway)
   \<and> \<not> allowed (storage_resolution one_pathway_types) ''off''
   \<and> fst (set_resolution one_pathway_types ''off'') \<noteq> None"
proof -
  have c: "consistent one_pathway" by (rule consistent_examples)
  have a: "allowed (storage_resolution one_pathway) ''types''"
    by (simp add: one_pathway_eq allowed_def conversions_def)
  have n: "\<not> allowed (storage_resolution one_pathway_types) ''off''"
    by (simp add: one_pathway_types_eq allowed_def conversions_def)
  from set_resolution_transitions [of one_pathway "''types''"] c a
  have r: "fst (set_resolution one_pathway ''types'') = None" by blast
  from set_resolution_transitions [of one_pathway "''types''"] r
  have l: "storage_resolution (snd (set_resolution one_pathway ''types'')) = ''types''"
    "level ''types'' \<le> level (storage_resolution one_pathway)"
    by blast+
  from set_resolution_transitions [of one_pathway_types "''off''"] n
  have f: "fst (set_resolution one_pathway_types ''off'') \<noteq> None" by blast
  from c a r l n f show ?thesis by blast
qed

text \<open>
  C2 as stated fails. The object \<open>written_signals\<close> was lowered to signals
  resolution before any write, and then an array was assigned to \<^verbatim>\<open>d__data\<close>: the
  setter returns, having replaced the storage by an empty dictionary and set
  \<^verbatim>\<open>storage_initialized\<close>. The legal transition from signals to off then raises
  KeyError.
\<close>

lemma written_signals_eq:
  "written_signals =
     unwritten\<lparr>storage_resolution := ''signals'', storage_initialized := True,
       current_dtype := Some ''REPH'', d_data := Some []\<rparr>"
  by (simp add: written_signals_def unwritten_signals_eq unwritten_eq set_data_flag_def
      set_d_data_def)

theorem written_signals_off_raises:
  "fst (set_d_data (snd (set_data_flag unwritten_signals (Flag (Some ''REPH''))))
          (NDArray Complex_kind (1, 1) [[1]])) = None
   \<and> storage_resolution written_signals = ''signals''
   \<and> allowed ''signals'' ''off''
   \<and> set_resolution written_signals ''off'' = (Some KeyError, written_signals)"
proof -
  have 1: "fst (set_d_data (snd (set_data_flag unwritten_signals (Flag (Some ''REPH''))))
          (NDArray Complex_kind (1, 1) [[1]])) = None"
    by (simp add: unwritten_signals_eq unwritten_eq set_data_flag_def set_d_data_def)
  have 2: "storage_resolution written_signals = ''signals''"
    by (simp add: written_signals_eq)
  have 3: "allowed ''signals'' ''off''"
    by (simp add: allowed_def conversions_def)
  have 4: "set_resolution written_signals ''off'' = (Some KeyError, written_signals)"
    by (simp add: written_signals_eq unwritten_eq step_defs signals_to_total_def axes_zeros_def
        stored_spectrum_def signals_eq unit_axis_def)
  from 1 2 3 4 show ?thesis by blast
qed

subsection \<open>The array of a pathway\<close>

lemma set_column_full:
  assumes "i1 < snd (shape a)" "length vec = fst (shape a)"
  shows "set_column a i1 vec
           = Inr (tabulate2 (kind a) (shape a) (\<lambda>i j. if j = i1 then vec ! i else cell a i j))"
  using assms by (simp add: set_column_def)

lemma fill_columns_cells:
  assumes "\<forall>i1 \<in> set cols. i1 < length data1 \<and> i1 < snd (shape a)"
    and "length oo3 = fst (shape a)"
  shows "\<exists>r. fill_columns peak sign data1 oo3 a cols = Inr r \<and> shape r = shape a
           \<and> (\<forall>i < fst (shape a). \<forall>j < snd (shape a).
                 cell r i j = (if j \<in> set cols then peak (sign * data1 ! j) (oo3 ! i)
                               else cell a i j))"
  using assms
proof (induction cols arbitrary: a)
  case Nil
  then show ?case by simp
next
  case (Cons i1 cols)
  let ?vec = "map (peak (sign * (data1 ! i1))) oo3"
  let ?a' = "tabulate2 (kind a) (shape a) (\<lambda>i j. if j = i1 then ?vec ! i else cell a i j)"
  from Cons.prems have i1: "i1 < length data1" "i1 < snd (shape a)" by simp_all
  have col: "set_column a i1 ?vec = Inr ?a'"
    using i1(2) Cons.prems(2) by (intro set_column_full) simp_all
  have sh: "shape ?a' = shape a" by simp
  from Cons.prems sh have "\<forall>i1 \<in> set cols. i1 < length data1 \<and> i1 < snd (shape ?a')"
    and "length oo3 = fst (shape ?a')"
    by simp_all
  from Cons.IH [OF this] obtain r where
    r: "fill_columns peak sign data1 oo3 ?a' cols = Inr r" "shape r = shape ?a'"
       "\<forall>i < fst (shape ?a'). \<forall>j < snd (shape ?a').
           cell r i j = (if j \<in> set cols then peak (sign * data1 ! j) (oo3 ! i)
                         else cell ?a' i j)"
    by blast
  have run: "fill_columns peak sign data1 oo3 a (i1 # cols) = Inr r"
    using i1(1) col r(1) by simp
  have cells: "\<forall>i < fst (shape a). \<forall>j < snd (shape a).
                 cell r i j = (if j \<in> set (i1 # cols) then peak (sign * data1 ! j) (oo3 ! i)
                               else cell a i j)"
  proof (intro allI impI)
    fix i j
    assume i: "i < fst (shape a)" and j: "j < snd (shape a)"
    with r(3) sh have c: "cell r i j = (if j \<in> set cols then peak (sign * data1 ! j) (oo3 ! i)
                         else cell ?a' i j)"
      by simp
    have "cell ?a' i j = (if j = i1 then peak (sign * data1 ! i1) (oo3 ! i) else cell a i j)"
      using i j Cons.prems(2) by simp
    with c show "cell r i j = (if j \<in> set (i1 # cols) then peak (sign * data1 ! j) (oo3 ! i)
                               else cell a i j)"
      by auto
  qed
  from run r(2) sh cells show ?case by simp
qed

lemma fill_columns_grid:
  assumes "length data1 = n" "length oo3 = n"
  shows "\<exists>r. fill_columns peak sign data1 oo3 (zeros Complex_kind (n, n)) [0..<n] = Inr r \<and> shape r = (n, n)
           \<and> (\<forall>i < n. \<forall>j < n. cell r i j = peak (sign * data1 ! j) (oo3 ! i))"
proof -
  have "\<forall>i1 \<in> set [0..<n]. i1 < length data1 \<and> i1 < snd (shape (zeros Complex_kind (n, n)))"
    using assms(1) by simp
  moreover have "length oo3 = fst (shape (zeros Complex_kind (n, n)))"
    using assms(2) by simp
  ultimately obtain r where
    r: "fill_columns peak sign data1 oo3 (zeros Complex_kind (n, n)) [0..<n] = Inr r"
       "shape r = shape (zeros Complex_kind (n, n))"
       "\<forall>i < fst (shape (zeros Complex_kind (n, n))). \<forall>j < snd (shape (zeros Complex_kind (n, n))).
           cell r i j = (if j \<in> set [0..<n] then peak (sign * data1 ! j) (oo3 ! i)
                         else cell (zeros Complex_kind (n, n)) i j)"
    using fill_columns_cells [of "[0..<n]" data1 "zeros Complex_kind (n, n)" oo3 peak sign] by blast
  from r(3) have "\<forall>i < n. \<forall>j < n. cell r i j = peak (sign * data1 ! j) (oo3 ! i)"
    by simp
  with r(1,2) show ?thesis by simp
qed

subsection \<open>The Gaussian array on a square grid\<close>

lemma line_parameters_default:
  assumes "py_index (widths p) 1 = Inr w1" "w1 < 0" "py_index (widths p) 3 = Inr w3" "w3 < 0"
    "py_index (dephs p) 1 = Inr d1"
  shows "line_parameters c p = Inr (widthx c, widthy c, if d1 < 0 then dephx c else d1, dephy c)"
  using assms by (simp add: line_parameters_def)

lemma calculate_pathway_gaussian:
  assumes "py_index (frequency p) 0 = Inr cen1"
    and "py_index (frequency p) (order p + relax_order p - 1) = Inr cen3"
    and "pref p = 1"
    and "line_parameters c p = Inr (wx, wy, dx, dy)"
    and "axis_length (oa1 c) = n" "length (axis_data (oa1 c)) = n"
    and "axis_length (oa3 c) = n" "length (axis_data (oa3 c)) = n"
    and "pathway_type p = ''R'' \<and> sign = - 1 \<or> pathway_type p = ''NR'' \<and> sign = 1"
  shows "\<exists>r. calculate_pathway c p ''Gaussian'' = Inr (Some r) \<and> shape r = (n, n)
           \<and> (\<forall>i3 < n. \<forall>i1 < n.
                 cell r i3 i1 = gaussian 1 cen1 cen3 wx wy (sign * axis_data (oa1 c) ! i1)
                                  (axis_data (oa3 c) ! i3))"
proof -
  from fill_columns_grid [OF assms(6) assms(8), of "gaussian 1 cen1 cen3 wx wy" sign]
  obtain r where
    r: "fill_columns (gaussian 1 cen1 cen3 wx wy) sign (axis_data (oa1 c)) (axis_data (oa3 c))
          (zeros Complex_kind (n, n)) [0..<n] = Inr r"
       "shape r = (n, n)"
       "\<forall>i < n. \<forall>j < n. cell r i j = gaussian 1 cen1 cen3 wx wy (sign * axis_data (oa1 c) ! j)
                                        (axis_data (oa3 c) ! i)"
    by blast
  have noe: "1 + order p + relax_order p - 2 = order p + relax_order p - 1" by simp
  have one: "(if all_positive c then of_real (cmod (pref p)) else pref p) = 1"
    using assms(3) by simp
  from assms(9) have "calculate_pathway c p ''Gaussian'' = Inr (Some r)"
  proof
    assume "pathway_type p = ''R'' \<and> sign = - 1"
    with assms(1,2,4,5,7) r(1) one show ?thesis
      by (simp add: calculate_pathway_def Let_def noe)
  next
    assume "pathway_type p = ''NR'' \<and> sign = 1"
    with assms(1,2,4,5,7) r(1) one show ?thesis
      by (simp add: calculate_pathway_def Let_def noe)
  qed
  with r(2,3) show ?thesis by blast
qed

subsection \<open>The spectrum of the two pathways\<close>

lemma calculate_pathway_None:
  "calculate_pathway c p shp = Inr None \<Longrightarrow> pathway_type p \<noteq> ''R'' \<and> pathway_type p \<noteq> ''NR''"
  by (auto simp: calculate_pathway_def Let_def map_sum_def
      split: sum.splits if_splits prod.splits)

lemma add_data_no_dtype:
  "dtype s = None \<Longrightarrow>
   add_data s a (Some d) = (Some (Exception ''Incorrect data type in TwoDSpectrum''), s)"
  by (simp add: add_data_def)

text \<open>
  The loop of \<^verbatim>\<open>calculate\<close> and \<^verbatim>\<open>calculate_one\<close> raises at its first pathway,
  whatever the pathway: the new spectrum has no data type.
\<close>

lemma add_pathways_raises:
  "dtype s = None \<Longrightarrow> ps \<noteq> [] \<Longrightarrow> \<exists>e. add_pathways c s ps = Inl e"
  by (cases ps) (auto simp: add_data_no_dtype split: sum.splits option.splits)

lemma calculate_never_returns:
  "pathways c \<noteq> [] \<Longrightarrow> \<exists>e. calculate c = Inl e"
  using add_pathways_raises [of "set_axis_3 (set_axis_1 TwoDSpectrum (oa1 c)) (oa3 c)" "pathways c" c]
  by (auto simp: calculate_def set_axis_1_def set_axis_3_def TwoDSpectrum_def)

lemma calculate_one_never_returns:
  "pathways c \<noteq> [] \<Longrightarrow> \<exists>e. calculate_one c tc = Inl e"
  using add_pathways_raises [of "set_axis_3 (set_axis_1 TwoDSpectrum (oa1 c)) (oa3 c)" "pathways c" c]
  by (auto simp: calculate_one_def set_axis_1_def set_axis_3_def TwoDSpectrum_def)

text \<open>
  The Gaussian peak function with prefactor 1 is 1 at its centre and has a real
  part below 1 everywhere else.
\<close>

lemma gaussian_centre: "gaussian 1 cen1 cen3 wx wy cen1 cen3 = 1"
  by (simp add: gaussian_def)

lemma gaussian_off_centre:
  assumes "wx \<noteq> 0" "wy \<noteq> 0" "o1 \<noteq> cen1 \<or> o3 \<noteq> cen3"
  shows "Re (gaussian 1 cen1 cen3 wx wy o1 o3) < 1"
proof -
  have "Re (gaussian 1 cen1 cen3 wx wy o1 o3)
          = exp (- (((o1 - cen1) / wx)\<^sup>2) - ((o3 - cen3) / wy)\<^sup>2)"
    by (simp add: gaussian_def exp_diff exp_minus field_simps)
  moreover have "0 < ((o1 - cen1) / wx)\<^sup>2 + ((o3 - cen3) / wy)\<^sup>2"
    using assms by (auto simp: sum_power2_gt_zero_iff)
  ultimately show ?thesis by simp
qed

text \<open>
  C8 fails on the code. The calculator has the symmetric grid -100, 0, 100 on
  both axes, the default widths 300, the Gaussian shape, and two pathways with
  centre frequencies 100 and 100 and prefactor 1, the first of type R and the
  second of type NR. \<^verbatim>\<open>calculate\<close> and \<^verbatim>\<open>calculate_one\<close> raise at the first
  \<^verbatim>\<open>add_data\<close>, on the new spectrum, so there is no Reph and no Nonr array. What
  \<^verbatim>\<open>calculate_pathway\<close> returns for each pathway is a 3 by 3 array whose first
  index runs over the samples of \<open>oa3\<close> and whose second index runs over the
  samples of \<open>oa1\<close>, negated for the type R: the value 1 of the centre is in
  row 2 (omega3 = 100) and column 0 (omega1 = -100) for R, and in row 2 and
  column 2 (omega1 = 100) for NR. With five samples on the second axis, which
  is symmetric too, \<^verbatim>\<open>calculate_pathway\<close> itself raises ValueError for both
  pathways.
\<close>

theorem calculate_raises:
  "calculate mock_calculator = Inl (Exception ''Incorrect data type in TwoDSpectrum'')
   \<and> calculate_one mock_calculator 0 = Inl (Exception ''Incorrect data type in TwoDSpectrum'')
   \<and> calculate_pathway mock_calculator rephasing_pathway ''Gaussian''
       = Inr (Some (NDArray Complex_kind (3, 3)
           [[gaussian 1 100 100 300 300 100 (- 100), gaussian 1 100 100 300 300 0 (- 100),
             gaussian 1 100 100 300 300 (- 100) (- 100)],
            [gaussian 1 100 100 300 300 100 0, gaussian 1 100 100 300 300 0 0,
             gaussian 1 100 100 300 300 (- 100) 0],
            [gaussian 1 100 100 300 300 100 100, gaussian 1 100 100 300 300 0 100,
             gaussian 1 100 100 300 300 (- 100) 100]]))
   \<and> calculate_pathway mock_calculator nonrephasing_pathway ''Gaussian''
       = Inr (Some (NDArray Complex_kind (3, 3)
           [[gaussian 1 100 100 300 300 (- 100) (- 100), gaussian 1 100 100 300 300 0 (- 100),
             gaussian 1 100 100 300 300 100 (- 100)],
            [gaussian 1 100 100 300 300 (- 100) 0, gaussian 1 100 100 300 300 0 0,
             gaussian 1 100 100 300 300 100 0],
            [gaussian 1 100 100 300 300 (- 100) 100, gaussian 1 100 100 300 300 0 100,
             gaussian 1 100 100 300 300 100 100]]))
   \<and> gaussian 1 100 100 300 300 100 100 = 1
   \<and> Re (gaussian 1 100 100 300 300 (- 100) 100) < 1
   \<and> calculate_pathway uneven_calculator rephasing_pathway ''Gaussian'' = Inl ValueError
   \<and> calculate_pathway uneven_calculator nonrephasing_pathway ''Gaussian'' = Inl ValueError"
proof -
  have r: "calculate_pathway mock_calculator rephasing_pathway ''Gaussian''
       = Inr (Some (NDArray Complex_kind (3, 3)
           [[gaussian 1 100 100 300 300 100 (- 100), gaussian 1 100 100 300 300 0 (- 100),
             gaussian 1 100 100 300 300 (- 100) (- 100)],
            [gaussian 1 100 100 300 300 100 0, gaussian 1 100 100 300 300 0 0,
             gaussian 1 100 100 300 300 (- 100) 0],
            [gaussian 1 100 100 300 300 100 100, gaussian 1 100 100 300 300 0 100,
             gaussian 1 100 100 300 300 (- 100) 100]]))"
    by (simp add: calculate_pathway_def mock_calculator_def rephasing_pathway_def grid_axis_def
        line_parameters_def py_index_def set_column_def array_defs numeral_3_eq_3)
  have nr: "calculate_pathway mock_calculator nonrephasing_pathway ''Gaussian''
       = Inr (Some (NDArray Complex_kind (3, 3)
           [[gaussian 1 100 100 300 300 (- 100) (- 100), gaussian 1 100 100 300 300 0 (- 100),
             gaussian 1 100 100 300 300 100 (- 100)],
            [gaussian 1 100 100 300 300 (- 100) 0, gaussian 1 100 100 300 300 0 0,
             gaussian 1 100 100 300 300 100 0],
            [gaussian 1 100 100 300 300 (- 100) 100, gaussian 1 100 100 300 300 0 100,
             gaussian 1 100 100 300 300 100 100]]))"
    by (simp add: calculate_pathway_def mock_calculator_def rephasing_pathway_def
        nonrephasing_pathway_def grid_axis_def
        line_parameters_def py_index_def set_column_def array_defs numeral_3_eq_3)
  have ps: "pathways mock_calculator = [rephasing_pathway, nonrephasing_pathway]"
    and ls: "line_shape mock_calculator = ''Gaussian''"
    by (simp_all add: mock_calculator_def)
  have ty: "pathway_type rephasing_pathway = ''R''"
    by (simp add: rephasing_pathway_def)
  have new: "dtype (set_axis_3 (set_axis_1 TwoDSpectrum (oa1 mock_calculator))
                      (oa3 mock_calculator)) = None"
    by (simp add: set_axis_1_def set_axis_3_def TwoDSpectrum_def)
  have loop: "add_pathways mock_calculator
                (set_axis_3 (set_axis_1 TwoDSpectrum (oa1 mock_calculator)) (oa3 mock_calculator))
                (pathways mock_calculator)
              = Inl (Exception ''Incorrect data type in TwoDSpectrum'')"
    by (simp add: ps ls r ty add_data_no_dtype [OF new])
  have c: "calculate mock_calculator = Inl (Exception ''Incorrect data type in TwoDSpectrum'')"
    by (simp add: calculate_def loop)
  have c1: "calculate_one mock_calculator 0
              = Inl (Exception ''Incorrect data type in TwoDSpectrum'')"
    by (simp add: calculate_one_def loop)
  have top: "gaussian 1 100 100 300 300 100 100 = 1"
    by (rule gaussian_centre)
  have low: "Re (gaussian 1 100 100 300 300 (- 100) 100) < 1"
    by (rule gaussian_off_centre) simp_all
  have u: "calculate_pathway uneven_calculator rephasing_pathway ''Gaussian'' = Inl ValueError"
    "calculate_pathway uneven_calculator nonrephasing_pathway ''Gaussian'' = Inl ValueError"
    by (simp_all add: calculate_pathway_def uneven_calculator_def mock_calculator_def
        rephasing_pathway_def nonrephasing_pathway_def grid_axis_def long_axis_def
        line_parameters_def py_index_def set_column_def array_defs numeral_3_eq_3)
  from c c1 r nr top low u show ?thesis by (intro conjI)
qed

subsection \<open>Adding up pathways of different numeric kinds\<close>

text \<open>
  Read with the flag of a pathway type alone, a dictionary that holds a float
  array and then a complex array of the same shape raises: the sum is made in
  a copy of the first array.
\<close>

lemma pathways_sum_kinds:
  "pathways_sum (Pathways [(Some ''a'', NDArray Float_kind (1, 1) [[1]]),
                           (Some ''b'', NDArray Complex_kind (1, 1) [[1]])])
     = Inl UFuncTypeError"
  by (simp add: pathways_sum_def array_defs)

subsection \<open>Switching the resolution off, and what stays\<close>

lemma off_returns_same:
  assumes "storage_resolution s = ''signals'' \<or> storage_resolution s = ''processes''"
    and "set_resolution s ''off'' = (None, s')"
  shows "s' = s\<lparr>storage_resolution := ''off''\<rparr>"
proof -
  have new: "resolution2number ''off'' = Inr 0"
    by (simp add: resolution2number_def resolutions_def)
  from assms(1) obtain old where old: "resolution2number (storage_resolution s) = Inr old" "0 < old"
    by (auto simp: resolution2number_def resolutions_def)
  from assms(2) old new obtain s'' where
    c: "convert_resolution s old 0 = (None, s'')" and s': "s' = s''\<lparr>storage_resolution := ''off''\<rparr>"
    by (auto simp: set_resolution_def resolutions_def split: prod.splits option.splits)
  from convert_resolution_to_off [OF _ c] have "s'' = s" by simp
  with s' show ?thesis by simp
qed

text \<open>
  C10. From signals or processes resolution, a call \<^verbatim>\<open>set_resolution('off')\<close>
  that returns changes \<^verbatim>\<open>storage_resolution\<close> to \<open>off\<close> and nothing else: the
  storage is the one from before the call, and the total that the conversion
  computed is in no attribute of the object. On a consistent object the call does
  return.
\<close>

theorem set_resolution_off_keeps_storage:
  assumes "storage_resolution s = ''signals'' \<or> storage_resolution s = ''processes''"
  shows "(set_resolution s ''off'' = (None, s') \<longrightarrow> s' = s\<lparr>storage_resolution := ''off''\<rparr>)
       \<and> (consistent s \<longrightarrow> set_resolution s ''off'' = (None, s\<lparr>storage_resolution := ''off''\<rparr>))"
proof (intro conjI impI)
  assume "set_resolution s ''off'' = (None, s')"
  with assms show "s' = s\<lparr>storage_resolution := ''off''\<rparr>" by (rule off_returns_same)
next
  assume c: "consistent s"
  from assms have "allowed (storage_resolution s) ''off''"
    by (auto simp: allowed_def conversions_def)
  from set_resolution_consistent [OF c this] obtain t where
    t: "set_resolution s ''off'' = (None, t)"
    by blast
  from off_returns_same [OF assms t] t
  show "set_resolution s ''off'' = (None, s\<lparr>storage_resolution := ''off''\<rparr>)" by simp
qed

lemma one_pathway_signals_consistent: "consistent one_pathway_signals"
  by (simp add: consistent_def one_pathway_signals_eq one_pathway_eq resolutions_def signals_eq
      fits_def store_shape_def unit_axis_def)

theorem set_resolution_off_keeps_storage_witness:
  "(storage_resolution one_pathway_signals = ''signals''
      \<or> storage_resolution one_pathway_signals = ''processes'')
   \<and> consistent one_pathway_signals
   \<and> set_resolution one_pathway_signals ''off''
       = (None, one_pathway_signals\<lparr>storage_resolution := ''off''\<rparr>)
   \<and> d_data (snd (set_resolution one_pathway_signals ''off'')) = d_data one_pathway_signals"
proof -
  have h: "storage_resolution one_pathway_signals = ''signals''
      \<or> storage_resolution one_pathway_signals = ''processes''"
    by (simp add: one_pathway_signals_eq)
  have c: "consistent one_pathway_signals" by (rule one_pathway_signals_consistent)
  from set_resolution_off_keeps_storage [OF h] c
  have r: "set_resolution one_pathway_signals ''off''
       = (None, one_pathway_signals\<lparr>storage_resolution := ''off''\<rparr>)"
    by blast
  then have "d_data (snd (set_resolution one_pathway_signals ''off'')) = d_data one_pathway_signals"
    by simp
  with h c r show ?thesis by blast
qed

subsection \<open>add_data on a new spectrum\<close>

text \<open>
  On the object as the constructor leaves it, with no data type yet,
  \<^verbatim>\<open>add_data\<close> raises for each of the three data types: the test that would
  adopt the data type is made on the argument.
\<close>

lemma add_data_unset_raises:
  "d \<in> set dtypes \<Longrightarrow>
   add_data TwoDSpectrum a (Some d)
     = (Some (Exception ''Incorrect data type in TwoDSpectrum''), TwoDSpectrum)"
  by (simp add: add_data_def TwoDSpectrum_def)

end
